theory Spec2Isabelle
  imports Complex_Main
begin

section \<open>JavaScript values and built-ins used by the controllers\<close>

text \<open>
  A JavaScript number that the code only compares with whole constants or uses as a time
  value is modelled as an \<open>int\<close>: the duration of a reservation (it is stored and added only
  when it is 30 or 60; any other value, fractional or not, takes the same branches as some
  whole number) and the milliseconds of a date. The capacity of a canteen is a \<open>rat\<close>:
  the code stores whatever number the request carries and compares a count with it, and
  every finite double is a rational. A number that an operation can turn into \<open>NaN\<close> is an
  option with \<open>None\<close> for \<open>NaN\<close>. Magnitudes beyond \<open>2^53\<close>, where a double stops being
  exact, are outside the model.
  A value that may be \<open>undefined\<close> is an option with \<open>None\<close> for \<open>undefined\<close>.
  Strings are byte strings; the white space of \<open>parseInt\<close> is the ASCII part of the
  ECMAScript white space and line terminator set.
\<close>

text \<open>Truthiness of an optional string and of an optional number (\<open>!x\<close> is its negation).\<close>

definition truthy_str :: "string option \<Rightarrow> bool" where
  "truthy_str x = (case x of None \<Rightarrow> False | Some s \<Rightarrow> s \<noteq> [])"

definition truthy_num :: "'a::zero option \<Rightarrow> bool" where
  "truthy_num x = (case x of None \<Rightarrow> False | Some n \<Rightarrow> n \<noteq> 0)"

text \<open>
  The value of an optional string or number where it is known to be present; the empty
  string and zero stand in for the absent value.
\<close>

definition str :: "string option \<Rightarrow> string" where
  "str x = (case x of None \<Rightarrow> [] | Some s \<Rightarrow> s)"

definition num :: "'a::zero option \<Rightarrow> 'a" where
  "num x = (case x of None \<Rightarrow> 0 | Some n \<Rightarrow> n)"

text \<open>Relational operators on numbers: every comparison with \<open>NaN\<close> is false.\<close>

definition js_lt :: "int option \<Rightarrow> int option \<Rightarrow> bool" where
  "js_lt a b = (case a of None \<Rightarrow> False | Some x \<Rightarrow> (case b of None \<Rightarrow> False | Some y \<Rightarrow> x < y))"

definition js_le :: "int option \<Rightarrow> int option \<Rightarrow> bool" where
  "js_le a b = (case a of None \<Rightarrow> False | Some x \<Rightarrow> (case b of None \<Rightarrow> False | Some y \<Rightarrow> x \<le> y))"

definition js_gt :: "int option \<Rightarrow> int option \<Rightarrow> bool" where
  "js_gt a b = js_lt b a"

definition js_ge :: "int option \<Rightarrow> int option \<Rightarrow> bool" where
  "js_ge a b = js_le b a"

text \<open>\<open>s.split(c)\<close> for a one-character separator: never the empty array.\<close>

fun split :: "char \<Rightarrow> string \<Rightarrow> string list" where
  "split c [] = [ [] ]"
| "split c (x # xs) =
     (if x = c then [] # split c xs
      else (case split c xs of [] \<Rightarrow> [ [x] ] | y # ys \<Rightarrow> (x # y) # ys))"

text \<open>\<open>xs[i]\<close>: \<open>undefined\<close> out of range.\<close>

definition at_index :: "'a list \<Rightarrow> nat \<Rightarrow> 'a option" where
  "at_index xs i = (if i < length xs then Some (xs ! i) else None)"

text \<open>
  \<open>parseInt(x)\<close> without a radix: leading white space is skipped, one sign is read, a
  \<open>0x\<close> or \<open>0X\<close> prefix selects radix 16, the longest prefix of digits is read and the rest
  is ignored; no digit at all gives \<open>NaN\<close>. \<open>parseInt(undefined)\<close> reads the string
  \<open>undefined\<close>, which has no digit.
\<close>

definition isWhiteSpace :: "char \<Rightarrow> bool" where
  "isWhiteSpace c = (of_char c \<in> {9, 10, 11, 12, 13, 32 :: nat})"

definition digitValue :: "nat \<Rightarrow> char \<Rightarrow> nat option" where
  "digitValue R c =
     (let n = (of_char c :: nat);
          v = (if 48 \<le> n \<and> n \<le> 57 then Some (n - 48)
               else if 97 \<le> n \<and> n \<le> 122 then Some (n - 87)
               else if 65 \<le> n \<and> n \<le> 90 then Some (n - 55)
               else None)
      in (case v of None \<Rightarrow> None | Some d \<Rightarrow> if d < R then Some d else None))"

fun digitsPrefix :: "nat \<Rightarrow> string \<Rightarrow> nat list" where
  "digitsPrefix R [] = []"
| "digitsPrefix R (c # cs) =
     (case digitValue R c of None \<Rightarrow> [] | Some d \<Rightarrow> d # digitsPrefix R cs)"

definition parseInt_string :: "string \<Rightarrow> int option" where
  "parseInt_string s =
     (let S = dropWhile isWhiteSpace s;
          sign = (case S of [] \<Rightarrow> 1 | c # _ \<Rightarrow> if c = CHR ''-'' then - 1 else (1 :: int));
          S1 = (case S of [] \<Rightarrow> S | c # r \<Rightarrow> if c = CHR ''-'' \<or> c = CHR ''+'' then r else S);
          hex = (case S1 of a # b # _ \<Rightarrow> a = CHR ''0'' \<and> (b = CHR ''x'' \<or> b = CHR ''X'') | _ \<Rightarrow> False);
          R = (if hex then 16 else 10);
          Z = digitsPrefix R (if hex then drop 2 S1 else S1)
      in if Z = [] then None else Some (sign * int (foldl (\<lambda>acc d. acc * R + d) 0 Z)))"

definition parseInt :: "string option \<Rightarrow> int option" where
  "parseInt x = (case x of None \<Rightarrow> None | Some s \<Rightarrow> parseInt_string s)"

text \<open>\<open>xs.findIndex(p)\<close>, with \<open>None\<close> for \<open>-1\<close>.\<close>

fun findIndex :: "('a \<Rightarrow> bool) \<Rightarrow> 'a list \<Rightarrow> nat option" where
  "findIndex p [] = None"
| "findIndex p (x # xs) =
     (if p x then Some 0 else (case findIndex p xs of None \<Rightarrow> None | Some i \<Rightarrow> Some (Suc i)))"

section \<open>Dates\<close>

text \<open>
  A \<open>Date\<close> object is its time value in milliseconds since the epoch, \<open>None\<close> for
  \<open>Invalid Date\<close>. Comparing two dates with \<open><\<close>, \<open>>\<close>, \<open>\<le>\<close>, \<open>\<ge>\<close> compares the
  time values as numbers, so \<open>js_lt\<close> and its siblings apply.

  The repository takes \<open>parse\<close>, \<open>format\<close>, \<open>addDays\<close>, \<open>addMinutes\<close>, \<open>isBefore\<close> and
  \<open>isEqual\<close> from the date-fns package, which is not part of it. \<open>parse\<close>, \<open>format\<close> and
  \<open>addDays\<close> work in the time zone of the process; they are a parameter of every function
  that calls them: the record \<open>DateFns\<close>. The three format strings the controllers pass
  are the constructors of \<open>Pattern\<close>; the reference date, the third argument of \<open>parse\<close>,
  only fills the fields a pattern does not mention and is left out. \<open>format\<close> and \<open>addDays\<close>
  are only ever called on a valid date, and \<open>addDays\<close> of a valid date is a valid date.
  \<open>addMinutes\<close>, \<open>isBefore\<close> and \<open>isEqual\<close> work on the time value alone and are modelled
  here.
\<close>

type_synonym Date = "int option"

datatype Pattern =
    yyyy_MM_dd            \<comment> \<open>\<open>'yyyy-MM-dd'\<close>\<close>
  | yyyy_MM_dd_T_HH_mm    \<comment> \<open>\<open>"yyyy-MM-dd'T'HH:mm"\<close>\<close>
  | HH_mm                 \<comment> \<open>\<open>'HH:mm'\<close>\<close>

record DateFns =
  parse :: "string \<Rightarrow> Pattern \<Rightarrow> Date"
  format :: "int \<Rightarrow> Pattern \<Rightarrow> string"
  addDays :: "int \<Rightarrow> int \<Rightarrow> int"

definition addMinutes :: "Date \<Rightarrow> int \<Rightarrow> Date" where
  "addMinutes d amount = map_option (\<lambda>t. t + amount * 60000) d"

definition isBefore :: "Date \<Rightarrow> Date \<Rightarrow> bool" where
  "isBefore d dateToCompare = js_lt d dateToCompare"

definition isEqual :: "Date \<Rightarrow> Date \<Rightarrow> bool" where
  "isEqual a b = (case a of None \<Rightarrow> False | Some x \<Rightarrow> (case b of None \<Rightarrow> False | Some y \<Rightarrow> x = y))"

section \<open>Data model (models/types.ts, db.ts)\<close>

datatype Meal = breakfast | lunch | dinner

record WorkingHour =
  wh_meal :: Meal
  wh_from :: string
  wh_to :: string

record Canteen =
  c_id :: string
  c_name :: string
  c_location :: string
  c_capacity :: rat
  c_workingHours :: "WorkingHour list"

record Student =
  s_id :: string
  s_name :: string
  s_email :: string
  s_isAdmin :: bool

datatype Status = Active | Cancelled

record Reservation =
  r_id :: string
  r_studentId :: string
  r_canteenId :: string
  r_date :: string
  r_time :: string
  r_duration :: int
  r_status :: Status

record Db =
  students :: "Student list"
  canteens :: "Canteen list"
  reservations :: "Reservation list"

definition emptyDb :: Db where
  "emptyDb = \<lparr>students = [], canteens = [], reservations = []\<rparr>"

section \<open>Reservation controller\<close>

text \<open>
  The body of \<open>POST /reservations\<close>: each field of a reservation may be absent; a field
  that is present has the type the \<open>Reservation\<close> interface gives it.
\<close>

record ReservationBody =
  b_studentId :: "string option"
  b_canteenId :: "string option"
  b_date :: "string option"
  b_time :: "string option"
  b_duration :: "int option"

text \<open>
  The early returns of \<open>createReservation\<close>, each a 400 response with a fixed message:
  \<open>Missing required fields\<close>, \<open>Student not found\<close>, \<open>Duration must be 30 or 60 minutes\<close>,
  \<open>Time must start on the hour or half hour\<close>, \<open>Cannot create reservations in the past\<close>,
  \<open>Canteen not found\<close>, \<open>Reservation is outside of working hours\<close>,
  \<open>Student already has a reservation at this time\<close>, \<open>Canteen capacity reached for this slot\<close>.
\<close>

datatype Rejection =
    MissingFields
  | StudentNotFound
  | InvalidDuration
  | InvalidTimeSlot
  | PastReservation
  | CanteenNotFound
  | OutsideWorkingHours
  | StudentDoubleBooked
  | CapacityExceeded

definition isOverlapping :: "Date \<Rightarrow> Date \<Rightarrow> Date \<Rightarrow> Date \<Rightarrow> bool" where
  "isOverlapping startA endA startB endB = (js_lt startA endB \<and> js_gt endA startB)"

text \<open>
  The expression \<open>parseInt(x.split(':')[0]) * 60 + parseInt(x.split(':')[1])\<close>, which
  \<open>createReservation\<close> writes out for \<open>wh.from\<close>, \<open>wh.to\<close> and \<open>time\<close>.
\<close>

definition toMin :: "string \<Rightarrow> int option" where
  "toMin x =
     (case parseInt (at_index (split CHR '':'' x) 0) of
        None \<Rightarrow> None
      | Some h \<Rightarrow> (case parseInt (at_index (split CHR '':'' x) 1) of
                    None \<Rightarrow> None
                  | Some m \<Rightarrow> Some (h * 60 + m)))"

text \<open>The callback of \<open>canteen.workingHours.some\<close> and the constant \<open>fitsInSchedule\<close>.\<close>

definition fitsBlock :: "string \<Rightarrow> int \<Rightarrow> WorkingHour \<Rightarrow> bool" where
  "fitsBlock time duration wh =
     (let whFromMin = toMin (wh_from wh);
          whToMin = toMin (wh_to wh);
          resStartMin = toMin time;
          resEndMin = map_option (\<lambda>s. s + duration) resStartMin
      in js_ge resStartMin whFromMin \<and> js_le resEndMin whToMin)"

definition fitsInSchedule :: "Canteen \<Rightarrow> string \<Rightarrow> int \<Rightarrow> bool" where
  "fitsInSchedule canteen time duration = list_ex (fitsBlock time duration) (c_workingHours canteen)"

text \<open>Start and end of a stored reservation, as both controllers compute them.\<close>

definition resStart :: "DateFns \<Rightarrow> Reservation \<Rightarrow> Date" where
  "resStart L r = parse L (r_date r @ ''T'' @ r_time r) yyyy_MM_dd_T_HH_mm"

definition resEnd :: "DateFns \<Rightarrow> Reservation \<Rightarrow> Date" where
  "resEnd L r = addMinutes (resStart L r) (r_duration r)"

definition studentHasOverlap :: "DateFns \<Rightarrow> Db \<Rightarrow> string \<Rightarrow> Date \<Rightarrow> Date \<Rightarrow> bool" where
  "studentHasOverlap L db studentId reservationStart reservationEnd =
     list_ex (\<lambda>r. if r_studentId r \<noteq> studentId \<or> r_status r = Cancelled then False
                  else isOverlapping reservationStart reservationEnd (resStart L r) (resEnd L r))
             (reservations db)"

definition concurrentReservations ::
  "DateFns \<Rightarrow> Db \<Rightarrow> string \<Rightarrow> Date \<Rightarrow> Date \<Rightarrow> Reservation list" where
  "concurrentReservations L db canteenId reservationStart reservationEnd =
     filter (\<lambda>r. if r_canteenId r \<noteq> canteenId \<or> r_status r = Cancelled then False
                 else isOverlapping reservationStart reservationEnd (resStart L r) (resEnd L r))
            (reservations db)"

text \<open>
  \<open>createReservation\<close>. \<open>now\<close> is the reading of the clock (\<open>new Date()\<close>), \<open>uuid\<close> the
  string \<open>uuidv4()\<close> returns. The result is the response (a rejection, or the 201 body)
  and the store after the call.
\<close>

definition createReservation ::
  "DateFns \<Rightarrow> int \<Rightarrow> string \<Rightarrow> Db \<Rightarrow> ReservationBody \<Rightarrow> (Rejection + Reservation) \<times> Db" where
  "createReservation L now uuid db body =
     (if \<not> truthy_str (b_studentId body) \<or> \<not> truthy_str (b_canteenId body)
         \<or> \<not> truthy_str (b_date body) \<or> \<not> truthy_str (b_time body)
         \<or> \<not> truthy_num (b_duration body)
      then (Inl MissingFields, db)
      else
        (case (b_studentId body, b_canteenId body, b_date body, b_time body, b_duration body) of
           (Some studentId, Some canteenId, Some date, Some time, Some duration) \<Rightarrow>
             (case find (\<lambda>s. s_id s = studentId) (students db) of
                None \<Rightarrow> (Inl StudentNotFound, db)
              | Some student \<Rightarrow>
                  if duration \<noteq> 30 \<and> duration \<noteq> 60 then (Inl InvalidDuration, db)
                  else
                    let minutesPart = at_index (split CHR '':'' time) 1 in
                    if minutesPart \<noteq> Some ''00'' \<and> minutesPart \<noteq> Some ''30''
                    then (Inl InvalidTimeSlot, db)
                    else
                      let reservationStart = parse L (date @ ''T'' @ time) yyyy_MM_dd_T_HH_mm in
                      if isBefore reservationStart (Some now) then (Inl PastReservation, db)
                      else
                        (case find (\<lambda>c. c_id c = canteenId) (canteens db) of
                           None \<Rightarrow> (Inl CanteenNotFound, db)
                         | Some canteen \<Rightarrow>
                             let reservationEnd = addMinutes reservationStart duration in
                             if \<not> fitsInSchedule canteen time duration
                             then (Inl OutsideWorkingHours, db)
                             else if studentHasOverlap L db studentId reservationStart reservationEnd
                             then (Inl StudentDoubleBooked, db)
                             else if of_nat (length (concurrentReservations L db canteenId
                                                       reservationStart reservationEnd))
                                     \<ge> c_capacity canteen
                             then (Inl CapacityExceeded, db)
                             else
                               let newReservation =
                                     \<lparr>r_id = uuid, r_studentId = studentId, r_canteenId = canteenId,
                                      r_date = date, r_time = time, r_duration = duration,
                                      r_status = Active\<rparr>
                               in (Inr newReservation,
                                   db\<lparr>reservations := reservations db @ [newReservation]\<rparr>)))
         | _ \<Rightarrow> (Inl MissingFields, db)))"

text \<open>
  \<open>cancelReservation\<close>: \<open>find\<close> returns the first reservation with the id, and the
  assignment to its \<open>status\<close> changes the stored object.
\<close>

datatype CancelError = NotFound

definition cancelReservation :: "Db \<Rightarrow> string \<Rightarrow> (CancelError + Reservation) \<times> Db" where
  "cancelReservation db rid =
     (case findIndex (\<lambda>r. r_id r = rid) (reservations db) of
        None \<Rightarrow> (Inl NotFound, db)
      | Some i \<Rightarrow>
          let reservation = (reservations db ! i)\<lparr>r_status := Cancelled\<rparr>
          in (Inr reservation, db\<lparr>reservations := (reservations db)[i := reservation]\<rparr>))"

section \<open>Student controller and the admin check (utils/helpers.ts)\<close>

record StudentBody =
  sb_name :: "string option"
  sb_email :: "string option"
  sb_isAdmin :: "bool option"

datatype StudentError = StudentMissingFields | EmailExists

definition createStudent :: "string \<Rightarrow> Db \<Rightarrow> StudentBody \<Rightarrow> (StudentError + Student) \<times> Db" where
  "createStudent uuid db body =
     (if \<not> truthy_str (sb_name body) \<or> \<not> truthy_str (sb_email body)
      then (Inl StudentMissingFields, db)
      else
        (case (sb_name body, sb_email body) of
           (Some name, Some email) \<Rightarrow>
             if list_ex (\<lambda>s. s_email s = email) (students db) then (Inl EmailExists, db)
             else
               let newStudent = \<lparr>s_id = uuid, s_name = name, s_email = email,
                                  s_isAdmin = (sb_isAdmin body = Some True)\<rparr>
               in (Inr newStudent, db\<lparr>students := students db @ [newStudent]\<rparr>)
         | _ \<Rightarrow> (Inl StudentMissingFields, db)))"

text \<open>
  \<open>isAdmin\<close> reads the \<open>studentid\<close> header: absent, empty or repeated (an array) it is
  not an admin; the option is \<open>None\<close> for the absent and the repeated header.
\<close>

definition isAdmin :: "Db \<Rightarrow> string option \<Rightarrow> bool" where
  "isAdmin db studentId =
     (case studentId of
        None \<Rightarrow> False
      | Some sid \<Rightarrow>
          if sid = [] then False
          else (case find (\<lambda>s. s_id s = sid) (students db) of
                  None \<Rightarrow> False
                | Some student \<Rightarrow> s_isAdmin student))"

section \<open>Canteen controller\<close>

text \<open>
  The body of \<open>POST /canteens\<close> and \<open>PUT /canteens/:id\<close>: any subset of the fields of a
  canteen. \<open>createCanteen\<close> reads four of them; \<open>updateCanteen\<close> spreads the whole body over
  the stored canteen, its \<open>id\<close> included.
\<close>

record CanteenBody =
  cb_id :: "string option"
  cb_name :: "string option"
  cb_location :: "string option"
  cb_capacity :: "rat option"
  cb_workingHours :: "WorkingHour list option"

datatype CanteenError = Unauthorized | CanteenMissingFields | NoSuchCanteen

definition createCanteen ::
  "string \<Rightarrow> Db \<Rightarrow> string option \<Rightarrow> CanteenBody \<Rightarrow> (CanteenError + Canteen) \<times> Db" where
  "createCanteen uuid db studentId body =
     (if \<not> isAdmin db studentId then (Inl Unauthorized, db)
      else if \<not> truthy_str (cb_name body) \<or> \<not> truthy_str (cb_location body)
              \<or> \<not> truthy_num (cb_capacity body) \<or> cb_workingHours body = None
      then (Inl CanteenMissingFields, db)
      else
        (case (cb_name body, cb_location body, cb_capacity body, cb_workingHours body) of
           (Some name, Some location, Some capacity, Some workingHours) \<Rightarrow>
             let newCanteen = \<lparr>c_id = uuid, c_name = name, c_location = location,
                                c_capacity = capacity, c_workingHours = workingHours\<rparr>
             in (Inr newCanteen, db\<lparr>canteens := canteens db @ [newCanteen]\<rparr>)
         | _ \<Rightarrow> (Inl CanteenMissingFields, db)))"

text \<open>The object spread \<open>{ ...canteen, ...body }\<close>.\<close>

definition spread :: "Canteen \<Rightarrow> CanteenBody \<Rightarrow> Canteen" where
  "spread canteen body =
     \<lparr>c_id = (case cb_id body of None \<Rightarrow> c_id canteen | Some v \<Rightarrow> v),
      c_name = (case cb_name body of None \<Rightarrow> c_name canteen | Some v \<Rightarrow> v),
      c_location = (case cb_location body of None \<Rightarrow> c_location canteen | Some v \<Rightarrow> v),
      c_capacity = (case cb_capacity body of None \<Rightarrow> c_capacity canteen | Some v \<Rightarrow> v),
      c_workingHours =
        (case cb_workingHours body of None \<Rightarrow> c_workingHours canteen | Some v \<Rightarrow> v)\<rparr>"

definition updateCanteen ::
  "Db \<Rightarrow> string option \<Rightarrow> string \<Rightarrow> CanteenBody \<Rightarrow> (CanteenError + Canteen) \<times> Db" where
  "updateCanteen db studentId cid body =
     (if \<not> isAdmin db studentId then (Inl Unauthorized, db)
      else
        (case findIndex (\<lambda>c. c_id c = cid) (canteens db) of
           None \<Rightarrow> (Inl NoSuchCanteen, db)
         | Some canteenIndex \<Rightarrow>
             let updatedCanteen = spread (canteens db ! canteenIndex) body
             in (Inr updatedCanteen,
                 db\<lparr>canteens := (canteens db)[canteenIndex := updatedCanteen]\<rparr>)))"

text \<open>\<open>deleteCanteen\<close>: \<open>splice(index, 1)\<close>, then the cascade over every reservation.\<close>

definition deleteCanteen :: "Db \<Rightarrow> string option \<Rightarrow> string \<Rightarrow> (CanteenError + unit) \<times> Db" where
  "deleteCanteen db studentId canteenId =
     (if \<not> isAdmin db studentId then (Inl Unauthorized, db)
      else
        (case findIndex (\<lambda>c. c_id c = canteenId) (canteens db) of
           None \<Rightarrow> (Inl NoSuchCanteen, db)
         | Some index \<Rightarrow>
             (Inr (),
              db\<lparr>canteens := take index (canteens db) @ drop (Suc index) (canteens db),
                 reservations :=
                   map (\<lambda>r. if r_canteenId r = canteenId \<and> r_status r = Active
                             then r\<lparr>r_status := Cancelled\<rparr> else r)
                       (reservations db)\<rparr>)))"

subsection \<open>Availability slots\<close>



text \<open>The constant \<open>activeReservations\<close>: the length of the filtered array.\<close>

definition activeReservations :: "DateFns \<Rightarrow> Db \<Rightarrow> Canteen \<Rightarrow> Date \<Rightarrow> Date \<Rightarrow> nat" where
  "activeReservations L db canteen currentSlotTime slotEndTime =
     length (filter (\<lambda>r. if r_canteenId r \<noteq> c_id canteen \<or> r_status r = Cancelled then False
                         else js_lt currentSlotTime (resEnd L r) \<and> js_gt slotEndTime (resStart L r))
                    (reservations db))"







section \<open>The civil calendar and two instances of date-fns\<close>

text \<open>
  Days are counted from 1970-01-01, which is day 0, in the proleptic Gregorian calendar.
  \<open>dayNumber\<close> reads a zero-padded date of the shape \<open>2030-01-07\<close> as the number of its day;
  any other string names no day.
\<close>

definition readNat :: "string \<Rightarrow> int option" where
  "readNat s =
     (if s \<noteq> [] \<and> list_all (\<lambda>c. digitValue 10 c \<noteq> None) s
      then Some (foldl (\<lambda>acc d. acc * 10 + int d) 0 (digitsPrefix 10 s)) else None)"

definition isLeap :: "int \<Rightarrow> bool" where
  "isLeap y = (y mod 4 = 0 \<and> (y mod 100 \<noteq> 0 \<or> y mod 400 = 0))"

definition daysInMonth :: "int \<Rightarrow> int \<Rightarrow> int" where
  "daysInMonth y m =
     (if m = 2 then (if isLeap y then 29 else 28)
      else if m = 4 \<or> m = 6 \<or> m = 9 \<or> m = 11 then 30 else 31)"

definition daysFromCivil :: "int \<Rightarrow> int \<Rightarrow> int \<Rightarrow> int" where
  "daysFromCivil y m d =
     (let y1 = (if m \<le> 2 then y - 1 else y);
          era = y1 div 400;
          yoe = y1 - era * 400;
          doy = (153 * (if m > 2 then m - 3 else m + 9) + 2) div 5 + d - 1;
          doe = yoe * 365 + yoe div 4 - yoe div 100 + doy
      in era * 146097 + doe - 719468)"

definition civilFromDays :: "int \<Rightarrow> int \<times> int \<times> int" where
  "civilFromDays z0 =
     (let z = z0 + 719468;
          era = z div 146097;
          doe = z - era * 146097;
          yoe = (doe - doe div 1460 + doe div 36524 - doe div 146096) div 365;
          doy = doe - (365 * yoe + yoe div 4 - yoe div 100);
          mp = (5 * doy + 2) div 153;
          d = doy - (153 * mp + 2) div 5 + 1;
          m = (if mp < 10 then mp + 3 else mp - 9);
          y = yoe + era * 400
      in (if m \<le> 2 then y + 1 else y, m, d))"

definition dayNumber :: "string \<Rightarrow> int option" where
  "dayNumber s =
     (case split CHR ''-'' s of
        [ys, ms, ds] \<Rightarrow>
          if length ys = 4 \<and> length ms = 2 \<and> length ds = 2
          then (case readNat ys of None \<Rightarrow> None | Some y \<Rightarrow>
                 (case readNat ms of None \<Rightarrow> None | Some m \<Rightarrow>
                   (case readNat ds of None \<Rightarrow> None | Some d \<Rightarrow>
                      if 1 \<le> m \<and> m \<le> 12 \<and> 1 \<le> d \<and> d \<le> daysInMonth y m
                      then Some (daysFromCivil y m d)
                      else None)))
          else None
      | _ \<Rightarrow> None)"

text \<open>
  The worked examples need a concrete \<open>parse\<close>, \<open>format\<close> and \<open>addDays\<close>. \<open>utc\<close> is
  date-fns in a process whose time zone is UTC, on zero-padded input of exactly the
  pattern's shape (\<open>2030-01-07\<close>, \<open>2030-01-07T11:30\<close>); every other input is an
  \<open>Invalid Date\<close> here. No theorem about all \<open>DateFns\<close> depends on it.
\<close>

definition digitChar :: "int \<Rightarrow> char" where
  "digitChar d = ''0123456789'' ! nat (d mod 10)"

definition pad2 :: "int \<Rightarrow> string" where
  "pad2 n = [digitChar (n div 10), digitChar n]"

definition pad4 :: "int \<Rightarrow> string" where
  "pad4 n = [digitChar (n div 1000), digitChar (n div 100), digitChar (n div 10), digitChar n]"

definition parseDay :: "string \<Rightarrow> Date" where
  "parseDay s = map_option (\<lambda>day. day * 86400000) (dayNumber s)"

definition parseTimeOfDay :: "string \<Rightarrow> Date" where
  "parseTimeOfDay s =
     (case split CHR '':'' s of
        [hs, ms] \<Rightarrow>
          if length hs = 2 \<and> length ms = 2
          then (case readNat hs of None \<Rightarrow> None | Some h \<Rightarrow>
                 (case readNat ms of None \<Rightarrow> None | Some m \<Rightarrow>
                    if h \<le> 23 \<and> m \<le> 59 then Some ((h * 60 + m) * 60000) else None))
          else None
      | _ \<Rightarrow> None)"

definition parseDayTime :: "string \<Rightarrow> Date" where
  "parseDayTime s =
     (case split CHR ''T'' s of
        [d, t] \<Rightarrow>
          (case parseDay d of None \<Rightarrow> None | Some a \<Rightarrow>
            (case parseTimeOfDay t of None \<Rightarrow> None | Some b \<Rightarrow> Some (a + b)))
      | _ \<Rightarrow> None)"

definition formatDay :: "int \<Rightarrow> string" where
  "formatDay t =
     (case civilFromDays (t div 86400000) of
        (y, m, d) \<Rightarrow> pad4 y @ ''-'' @ pad2 m @ ''-'' @ pad2 d)"

definition formatTimeOfDay :: "int \<Rightarrow> string" where
  "formatTimeOfDay t =
     (let minutes = (t mod 86400000) div 60000
      in pad2 (minutes div 60) @ '':'' @ pad2 (minutes mod 60))"

fun utcParse :: "string \<Rightarrow> Pattern \<Rightarrow> Date" where
  "utcParse s yyyy_MM_dd = parseDay s"
| "utcParse s yyyy_MM_dd_T_HH_mm = parseDayTime s"
| "utcParse s HH_mm = parseTimeOfDay s"

fun utcFormat :: "int \<Rightarrow> Pattern \<Rightarrow> string" where
  "utcFormat t yyyy_MM_dd = formatDay t"
| "utcFormat t yyyy_MM_dd_T_HH_mm = formatDay t @ ''T'' @ formatTimeOfDay t"
| "utcFormat t HH_mm = formatTimeOfDay t"

definition utcAddDays :: "int \<Rightarrow> int \<Rightarrow> int" where
  "utcAddDays t amount = t + amount * 86400000"

definition utc :: DateFns where
  "utc = \<lparr>parse = utcParse, format = utcFormat, addDays = utcAddDays\<rparr>"










section \<open>The guards of \<open>createReservation\<close>\<close>

text \<open>
  \<open>createReservation\<close> is a chain of nine guarded returns. \<open>checks\<close> lists, in the order
  of the code, the condition under which each guard lets the request pass, as the code
  writes it, and the reason the guard reports; a field that is absent reads as the empty
  string or zero, and a guard about the canteen fails when there is none. \<open>firstFailure\<close>
  is the reason of the first entry that does not pass.
\<close>

definition fieldsPresent :: "ReservationBody \<Rightarrow> bool" where
  "fieldsPresent body =
     (truthy_str (b_studentId body) \<and> truthy_str (b_canteenId body) \<and> truthy_str (b_date body)
      \<and> truthy_str (b_time body) \<and> truthy_num (b_duration body))"

definition onGrid :: "string \<Rightarrow> bool" where
  "onGrid time =
     (at_index (split CHR '':'' time) 1 = Some ''00'' \<or> at_index (split CHR '':'' time) 1 = Some ''30'')"

definition requestStart :: "DateFns \<Rightarrow> ReservationBody \<Rightarrow> Date" where
  "requestStart L body = parse L (str (b_date body) @ ''T'' @ str (b_time body)) yyyy_MM_dd_T_HH_mm"

definition requestEnd :: "DateFns \<Rightarrow> ReservationBody \<Rightarrow> Date" where
  "requestEnd L body = addMinutes (requestStart L body) (num (b_duration body))"

definition requestCanteen :: "Db \<Rightarrow> ReservationBody \<Rightarrow> Canteen option" where
  "requestCanteen db body = find (\<lambda>c. c_id c = str (b_canteenId body)) (canteens db)"

definition checks :: "DateFns \<Rightarrow> int \<Rightarrow> Db \<Rightarrow> ReservationBody \<Rightarrow> (bool \<times> Rejection) list" where
  "checks L now db body =
     [(fieldsPresent body, MissingFields),
      (list_ex (\<lambda>s. s_id s = str (b_studentId body)) (students db), StudentNotFound),
      (num (b_duration body) = 30 \<or> num (b_duration body) = 60, InvalidDuration),
      (onGrid (str (b_time body)), InvalidTimeSlot),
      (\<not> isBefore (requestStart L body) (Some now), PastReservation),
      (requestCanteen db body \<noteq> None, CanteenNotFound),
      (case requestCanteen db body of
         None \<Rightarrow> False
       | Some canteen \<Rightarrow> fitsInSchedule canteen (str (b_time body)) (num (b_duration body)),
       OutsideWorkingHours),
      (\<not> studentHasOverlap L db (str (b_studentId body)) (requestStart L body) (requestEnd L body),
       StudentDoubleBooked),
      (case requestCanteen db body of
         None \<Rightarrow> False
       | Some canteen \<Rightarrow>
           of_nat (length (concurrentReservations L db (str (b_canteenId body))
                             (requestStart L body) (requestEnd L body))) < c_capacity canteen,
       CapacityExceeded)]"

definition firstFailure :: "(bool \<times> Rejection) list \<Rightarrow> Rejection option" where
  "firstFailure cs = map_option snd (find (\<lambda>c. \<not> fst c) cs)"

text \<open>The reservation a successful request creates.\<close>

definition requested :: "string \<Rightarrow> ReservationBody \<Rightarrow> Reservation" where
  "requested uuid body =
     \<lparr>r_id = uuid, r_studentId = str (b_studentId body), r_canteenId = str (b_canteenId body),
      r_date = str (b_date body), r_time = str (b_time body), r_duration = num (b_duration body),
      r_status = Active\<rparr>"

section \<open>The specification's reading of the validator\<close>

text \<open>
  The time utilities of the specification. The minute component of a time is the text
  between its first colon and the next one, or the end; a time is grid-aligned when that
  text is \<open>00\<close> or \<open>30\<close>. Two half-open intervals overlap when each starts before the other
  ends. The time span of a reservation runs from the instant of its date and time for its
  duration; a date and time that \<open>L\<close> cannot read give no span, and no span overlaps
  anything.
\<close>

definition minuteComponent :: "string \<Rightarrow> string option" where
  "minuteComponent time =
     (case dropWhile (\<lambda>c. c \<noteq> CHR '':'') time of
        [] \<Rightarrow> None
      | colon # rest \<Rightarrow> Some (takeWhile (\<lambda>c. c \<noteq> CHR '':'') rest))"

definition gridAligned :: "string \<Rightarrow> bool" where
  "gridAligned time = (minuteComponent time = Some ''00'' \<or> minuteComponent time = Some ''30'')"

definition intervalsOverlap :: "int \<Rightarrow> int \<Rightarrow> int \<Rightarrow> int \<Rightarrow> bool" where
  "intervalsOverlap startA endA startB endB = (startA < endB \<and> endA > startB)"

definition startInstant :: "DateFns \<Rightarrow> string \<Rightarrow> string \<Rightarrow> int option" where
  "startInstant L date time = parse L (date @ ''T'' @ time) yyyy_MM_dd_T_HH_mm"

definition timeSpan :: "DateFns \<Rightarrow> string \<Rightarrow> string \<Rightarrow> int \<Rightarrow> (int \<times> int) option" where
  "timeSpan L date time duration =
     (case startInstant L date time of
        None \<Rightarrow> None
      | Some start \<Rightarrow> Some (start, start + duration * 60000))"

definition spanOf :: "DateFns \<Rightarrow> Reservation \<Rightarrow> (int \<times> int) option" where
  "spanOf L r = timeSpan L (r_date r) (r_time r) (r_duration r)"

definition overlapping :: "(int \<times> int) option \<Rightarrow> (int \<times> int) option \<Rightarrow> bool" where
  "overlapping x y =
     (case x of
        None \<Rightarrow> False
      | Some (startA, endA) \<Rightarrow>
          (case y of None \<Rightarrow> False | Some (startB, endB) \<Rightarrow> intervalsOverlap startA endA startB endB))"

text \<open>
  A block and a request in minute offsets of the day: the request fits the block when
  it starts no earlier and ends no later.
\<close>

definition fitsEntirely :: "string \<Rightarrow> int \<Rightarrow> WorkingHour \<Rightarrow> bool" where
  "fitsEntirely time duration wh =
     (case toMin time of None \<Rightarrow> False | Some start \<Rightarrow>
       (case toMin (wh_from wh) of None \<Rightarrow> False | Some from \<Rightarrow>
         (case toMin (wh_to wh) of None \<Rightarrow> False | Some to \<Rightarrow>
            start \<ge> from \<and> start + duration \<le> to)))"

text \<open>
  The nine checks of \<open>validate_and_create\<close> in the words of the specification, each with
  the reason it reports, in the order of the specification:
  \<^enum> all five fields are present, and the four strings are not empty;
  \<^enum> the student id is that of a stored student;
  \<^enum> the duration is 30 or 60;
  \<^enum> the time is grid-aligned;
  \<^enum> the start instant is not strictly before the current instant;
  \<^enum> the canteen id is that of a stored canteen;
  \<^enum> the request fits entirely within one working-hour block of the canteen;
  \<^enum> no Active reservation of the same student, in whatever canteen, overlaps the
    requested span;
  \<^enum> the Active reservations of the canteen that overlap the requested span are fewer
    than its capacity.

  The specification counts a duration of 0 as present (its check 3 is the one to refuse
  it). A field that is absent reads as the empty string or zero in the later checks, and
  a check about the canteen fails when there is none.
\<close>

definition allPresent :: "ReservationBody \<Rightarrow> bool" where
  "allPresent body =
     (b_studentId body \<noteq> None \<and> b_studentId body \<noteq> Some []
      \<and> b_canteenId body \<noteq> None \<and> b_canteenId body \<noteq> Some []
      \<and> b_date body \<noteq> None \<and> b_date body \<noteq> Some []
      \<and> b_time body \<noteq> None \<and> b_time body \<noteq> Some []
      \<and> b_duration body \<noteq> None)"

definition specChecks :: "DateFns \<Rightarrow> int \<Rightarrow> Db \<Rightarrow> ReservationBody \<Rightarrow> (bool \<times> Rejection) list" where
  "specChecks L now db body =
     (let studentId = str (b_studentId body);
          canteenId = str (b_canteenId body);
          date = str (b_date body);
          time = str (b_time body);
          duration = num (b_duration body);
          canteen = find (\<lambda>c. c_id c = canteenId) (canteens db);
          wanted = timeSpan L date time duration
      in [(allPresent body, MissingFields),
          (list_ex (\<lambda>s. s_id s = studentId) (students db), StudentNotFound),
          (duration = 30 \<or> duration = 60, InvalidDuration),
          (gridAligned time, InvalidTimeSlot),
          (case startInstant L date time of None \<Rightarrow> True | Some start \<Rightarrow> now \<le> start,
           PastReservation),
          (canteen \<noteq> None, CanteenNotFound),
          (case canteen of
             None \<Rightarrow> False
           | Some c \<Rightarrow> list_ex (fitsEntirely time duration) (c_workingHours c),
           OutsideWorkingHours),
          (\<not> list_ex (\<lambda>r. r_status r = Active \<and> r_studentId r = studentId
                          \<and> overlapping wanted (spanOf L r))
                      (reservations db),
           StudentDoubleBooked),
          (case canteen of
             None \<Rightarrow> False
           | Some c \<Rightarrow>
               of_nat (length (filter (\<lambda>r. r_status r = Active \<and> r_canteenId r = canteenId
                                            \<and> overlapping wanted (spanOf L r))
                                      (reservations db)))
               < c_capacity c,
           CapacityExceeded)])"

section \<open>The specification's reading of the slot calculator\<close>












section \<open>Runs of the service\<close>

text \<open>
  A request to one of the mutating routes, with what the environment supplies for it: the
  identifier \<open>uuidv4()\<close> returns and the clock reading. \<open>step\<close> is the store after the
  request, \<open>run\<close> the store after a sequence of requests.
\<close>

datatype Op =
    CreateStudent string StudentBody
  | CreateCanteen string "string option" CanteenBody
  | UpdateCanteen "string option" string CanteenBody
  | DeleteCanteen "string option" string
  | CreateReservation int string ReservationBody
  | CancelReservation string



text \<open>
  The half-open interval of a reservation contains the instant \<open>\<tau>\<close>; the number of Active
  reservations of a canteen whose interval contains \<open>\<tau>\<close>.
\<close>

definition containsInstant :: "DateFns \<Rightarrow> Reservation \<Rightarrow> int \<Rightarrow> bool" where
  "containsInstant L r \<tau> = (js_le (resStart L r) (Some \<tau>) \<and> js_lt (Some \<tau>) (resEnd L r))"

definition activeAt :: "DateFns \<Rightarrow> Db \<Rightarrow> string \<Rightarrow> int \<Rightarrow> nat" where
  "activeAt L db canteenId \<tau> =
     length (filter (\<lambda>r. r_canteenId r = canteenId \<and> r_status r = Active \<and> containsInstant L r \<tau>)
                    (reservations db))"




subsection \<open>Invariants of a run\<close>




text \<open>The store without the reservation at position \<open>i\<close>.\<close>

definition withoutReservation :: "Db \<Rightarrow> nat \<Rightarrow> Db" where
  "withoutReservation db i =
     db\<lparr>reservations := take i (reservations db) @ drop (Suc i) (reservations db)\<rparr>"

section \<open>Worked examples\<close>

text \<open>
  The store of the repository's reservation tests: the canteen \<open>canteen-1\<close> with its three
  meal blocks, two students and an admin. The clock stands at 2025-11-01T00:00 UTC and the
  requests are for 2025-12-05.
\<close>

definition exampleCanteen :: Canteen where
  "exampleCanteen =
     \<lparr>c_id = ''canteen-1'', c_name = ''Main Canteen'', c_location = ''Location 1'',
      c_capacity = 20,
      c_workingHours = [\<lparr>wh_meal = breakfast, wh_from = ''07:00'', wh_to = ''10:00''\<rparr>,
                        \<lparr>wh_meal = lunch, wh_from = ''11:00'', wh_to = ''15:00''\<rparr>,
                        \<lparr>wh_meal = dinner, wh_from = ''17:00'', wh_to = ''20:00''\<rparr>]\<rparr>"

definition exampleStudents :: "Student list" where
  "exampleStudents =
     [\<lparr>s_id = ''student-1'', s_name = ''Student 1'', s_email = ''student1@test.com'',
       s_isAdmin = False\<rparr>,
      \<lparr>s_id = ''student-2'', s_name = ''Student 2'', s_email = ''student2@test.com'',
       s_isAdmin = False\<rparr>,
      \<lparr>s_id = ''admin-id'', s_name = ''Admin User'', s_email = ''admin@test.com'',
       s_isAdmin = True\<rparr>]"

definition exampleDb :: Db where
  "exampleDb = \<lparr>students = exampleStudents, canteens = [exampleCanteen], reservations = []\<rparr>"

definition exampleNow :: int where
  "exampleNow = 1761955200000"

definition request :: "string \<Rightarrow> string \<Rightarrow> int \<Rightarrow> ReservationBody" where
  "request studentId time duration =
     \<lparr>b_studentId = Some studentId, b_canteenId = Some ''canteen-1'',
      b_date = Some ''2025-12-05'', b_time = Some time, b_duration = Some duration\<rparr>"

definition booked :: "string \<Rightarrow> string \<Rightarrow> string \<Rightarrow> int \<Rightarrow> Status \<Rightarrow> Reservation" where
  "booked rid studentId time duration status =
     \<lparr>r_id = rid, r_studentId = studentId, r_canteenId = ''canteen-1'', r_date = ''2025-12-05'',
      r_time = time, r_duration = duration, r_status = status\<rparr>"

text \<open>A request that fails several checks at once: unknown student and canteen, 45 minutes, 12:15.\<close>

definition strayRequest :: ReservationBody where
  "strayRequest =
     \<lparr>b_studentId = Some ''nobody'', b_canteenId = Some ''nowhere'',
      b_date = Some ''2025-12-05'', b_time = Some ''12:15'', b_duration = Some 45\<rparr>"

text \<open>
  The example store with the lunch block moved up to the end of breakfast: two blocks
  with nothing between them.
\<close>

definition adjacentDb :: Db where
  "adjacentDb =
     exampleDb\<lparr>canteens :=
       [exampleCanteen\<lparr>c_workingHours :=
          [\<lparr>wh_meal = breakfast, wh_from = ''07:00'', wh_to = ''10:00''\<rparr>,
           \<lparr>wh_meal = lunch, wh_from = ''10:00'', wh_to = ''15:00''\<rparr>]\<rparr>]\<rparr>"

text \<open>
  A run from the empty store: the admin and two students register, the admin opens
  \<open>canteen-1\<close> for two guests at a time, student-1 books 12:00, asks for an overlapping
  hour, books 12:30, and student-2 books 12:00. \<open>uuidv4()\<close> is taken to
  return the ids the tests use.
\<close>

definition exampleOps :: "Op list" where
  "exampleOps =
     [CreateStudent ''admin-id''
        \<lparr>sb_name = Some ''Admin User'', sb_email = Some ''admin@test.com'', sb_isAdmin = Some True\<rparr>,
      CreateStudent ''student-1''
        \<lparr>sb_name = Some ''Student 1'', sb_email = Some ''student1@test.com'', sb_isAdmin = None\<rparr>,
      CreateStudent ''student-2''
        \<lparr>sb_name = Some ''Student 2'', sb_email = Some ''student2@test.com'', sb_isAdmin = None\<rparr>,
      CreateCanteen ''canteen-1'' (Some ''admin-id'')
        \<lparr>cb_id = None, cb_name = Some ''Main Canteen'', cb_location = Some ''Location 1'',
         cb_capacity = Some 2, cb_workingHours = Some (c_workingHours exampleCanteen)\<rparr>,
      CreateReservation exampleNow ''r1'' (request ''student-1'' ''12:00'' 30),
      CreateReservation exampleNow ''r2'' (request ''student-1'' ''12:00'' 60),
      CreateReservation exampleNow ''r3'' (request ''student-1'' ''12:30'' 30),
      CreateReservation exampleNow ''r4'' (request ''student-2'' ''12:00'' 30)]"

text \<open>The admin's update of the capacity of \<open>canteen-1\<close>, and the noon of 2025-12-05 UTC.\<close>

definition resize :: "rat \<Rightarrow> Op" where
  "resize k =
     UpdateCanteen (Some ''admin-id'') ''canteen-1''
       \<lparr>cb_id = None, cb_name = None, cb_location = None, cb_capacity = Some k,
        cb_workingHours = None\<rparr>"

definition noon :: int where
  "noon = 1764936000000"






text \<open>
  The example store with room for two guests at a time and three bookings: student-1
  at 12:00 and 12:30, student-2 at 12:00.
\<close>

definition bookedDb :: Db where
  "bookedDb =
     \<lparr>students = exampleStudents, canteens = [exampleCanteen\<lparr>c_capacity := 2\<rparr>],
      reservations = [booked ''r1'' ''student-1'' ''12:00'' 30 Active,
                      booked ''r3'' ''student-1'' ''12:30'' 30 Active,
                      booked ''r4'' ''student-2'' ''12:00'' 30 Active]\<rparr>"







section \<open>Auxiliary facts\<close>

lemma js_lt_simps [simp]:
  "js_lt (Some a) (Some b) = (a < b)" "js_lt None y = False" "js_lt x None = False"
  by (auto simp: js_lt_def split: option.splits)

lemma js_le_simps [simp]:
  "js_le (Some a) (Some b) = (a \<le> b)" "js_le None y = False" "js_le x None = False"
  by (auto simp: js_le_def split: option.splits)

lemma js_gt_simps [simp]:
  "js_gt (Some a) (Some b) = (b < a)" "js_gt None y = False" "js_gt x None = False"
  by (auto simp: js_gt_def)

lemma js_ge_simps [simp]:
  "js_ge (Some a) (Some b) = (b \<le> a)" "js_ge None y = False" "js_ge x None = False"
  by (auto simp: js_ge_def)

lemma findIndex_None: "(findIndex p xs = None) = (\<forall>x\<in>set xs. \<not> p x)"
  by (induction xs) (auto split: option.splits)

lemma findIndex_Some:
  "findIndex p xs = Some i \<Longrightarrow> i < length xs \<and> p (xs ! i) \<and> (\<forall>j<i. \<not> p (xs ! j))"
proof (induction xs arbitrary: i)
  case Nil
  then show ?case by simp
next
  case (Cons x xs)
  show ?case
  proof (cases "p x")
    case True
    with Cons.prems show ?thesis by simp
  next
    case False
    with Cons.prems obtain k where k: "findIndex p xs = Some k" "i = Suc k"
      by (auto split: option.splits)
    from Cons.IH[OF k(1)] False k(2) show ?thesis
      by (auto simp: nth_Cons split: nat.splits)
  qed
qed

lemma truthy_str_iff: "truthy_str x = (\<exists>s. x = Some s \<and> s \<noteq> [])"
  by (cases x) (auto simp: truthy_str_def)

lemma truthy_num_iff: "truthy_num x = (\<exists>n. x = Some n \<and> n \<noteq> 0)"
  by (cases x) (auto simp: truthy_num_def)

lemma status_same: "r_status r = Cancelled \<Longrightarrow> r\<lparr>r_status := Cancelled\<rparr> = r"
  by (cases r) simp

lemma createReservation_missing:
  "\<not> truthy_str (b_studentId body) \<or> \<not> truthy_str (b_canteenId body)
     \<or> \<not> truthy_str (b_date body) \<or> \<not> truthy_str (b_time body) \<or> \<not> truthy_num (b_duration body)
   \<Longrightarrow> createReservation L now uuid db body = (Inl MissingFields, db)"
  unfolding createReservation_def by (simp only: if_True)

lemma createReservation_present:
  assumes "b_studentId body = Some studentId" "studentId \<noteq> []"
    and "b_canteenId body = Some canteenId" "canteenId \<noteq> []"
    and "b_date body = Some date" "date \<noteq> []"
    and "b_time body = Some time" "time \<noteq> []"
    and "b_duration body = Some duration" "duration \<noteq> 0"
  shows "createReservation L now uuid db body =
     (case find (\<lambda>s. s_id s = studentId) (students db) of
        None \<Rightarrow> (Inl StudentNotFound, db)
      | Some student \<Rightarrow>
          if duration \<noteq> 30 \<and> duration \<noteq> 60 then (Inl InvalidDuration, db)
          else if at_index (split CHR '':'' time) 1 \<noteq> Some ''00''
                  \<and> at_index (split CHR '':'' time) 1 \<noteq> Some ''30''
          then (Inl InvalidTimeSlot, db)
          else if isBefore (parse L (date @ ''T'' @ time) yyyy_MM_dd_T_HH_mm) (Some now)
          then (Inl PastReservation, db)
          else
            (case find (\<lambda>c. c_id c = canteenId) (canteens db) of
               None \<Rightarrow> (Inl CanteenNotFound, db)
             | Some canteen \<Rightarrow>
                 if \<not> fitsInSchedule canteen time duration then (Inl OutsideWorkingHours, db)
                 else if studentHasOverlap L db studentId
                           (parse L (date @ ''T'' @ time) yyyy_MM_dd_T_HH_mm)
                           (addMinutes (parse L (date @ ''T'' @ time) yyyy_MM_dd_T_HH_mm) duration)
                 then (Inl StudentDoubleBooked, db)
                 else if of_nat (length (concurrentReservations L db canteenId
                           (parse L (date @ ''T'' @ time) yyyy_MM_dd_T_HH_mm)
                           (addMinutes (parse L (date @ ''T'' @ time) yyyy_MM_dd_T_HH_mm) duration)))
                         \<ge> c_capacity canteen
                 then (Inl CapacityExceeded, db)
                 else (Inr \<lparr>r_id = uuid, r_studentId = studentId, r_canteenId = canteenId,
                            r_date = date, r_time = time, r_duration = duration, r_status = Active\<rparr>,
                       db\<lparr>reservations := reservations db @
                          [\<lparr>r_id = uuid, r_studentId = studentId, r_canteenId = canteenId,
                            r_date = date, r_time = time, r_duration = duration,
                            r_status = Active\<rparr>]\<rparr>)))"
  unfolding createReservation_def Let_def truthy_str_def truthy_num_def
  by (simp only: assms option.case prod.case simp_thms if_False)

lemma fieldsPresentE:
  assumes "fieldsPresent body"
  obtains studentId canteenId date time duration where
    "b_studentId body = Some studentId" "studentId \<noteq> []"
    "b_canteenId body = Some canteenId" "canteenId \<noteq> []"
    "b_date body = Some date" "date \<noteq> []"
    "b_time body = Some time" "time \<noteq> []"
    "b_duration body = Some duration" "duration \<noteq> 0"
  using assms unfolding fieldsPresent_def truthy_str_iff truthy_num_iff by blast

lemma find_None_list_ex: "(find p xs = None) = (\<not> list_ex p xs)"
  by (auto simp: find_None_iff list_ex_iff)

lemma firstFailure_Cons [simp]:
  "firstFailure ((ok, e) # cs) = (if ok then firstFailure cs else Some e)"
  by (simp add: firstFailure_def)

lemma firstFailure_Nil [simp]: "firstFailure [] = None"
  by (simp add: firstFailure_def)

lemma firstFailure_Some_iff:
  "(firstFailure cs = Some e) =
     (\<exists>k<length cs. (\<forall>j<k. fst (cs ! j)) \<and> \<not> fst (cs ! k) \<and> e = snd (cs ! k))"
proof
  assume "firstFailure cs = Some e"
  then obtain z where "find (\<lambda>c. \<not> fst c) cs = Some z" "snd z = e"
    by (auto simp: firstFailure_def)
  then show "\<exists>k<length cs. (\<forall>j<k. fst (cs ! j)) \<and> \<not> fst (cs ! k) \<and> e = snd (cs ! k)"
    unfolding find_Some_iff by auto
next
  assume "\<exists>k<length cs. (\<forall>j<k. fst (cs ! j)) \<and> \<not> fst (cs ! k) \<and> e = snd (cs ! k)"
  then obtain k where "k < length cs" "\<forall>j<k. fst (cs ! j)" "\<not> fst (cs ! k)" "e = snd (cs ! k)"
    by blast
  then have "find (\<lambda>c. \<not> fst c) cs = Some (cs ! k)"
    unfolding find_Some_iff by auto
  with \<open>e = snd (cs ! k)\<close> show "firstFailure cs = Some e"
    by (simp add: firstFailure_def)
qed

lemma firstFailure_None_iff: "(firstFailure cs = None) = list_all fst cs"
  by (auto simp: firstFailure_def find_None_iff list_all_iff)

lemma checks_reasons:
  "map snd (checks L now db body) =
       [MissingFields, StudentNotFound, InvalidDuration, InvalidTimeSlot, PastReservation,
        CanteenNotFound, OutsideWorkingHours, StudentDoubleBooked, CapacityExceeded]"
  by (simp add: checks_def)

lemma createReservation_firstFailure:
  "createReservation L now uuid db body =
     (case firstFailure (checks L now db body) of
        Some reason \<Rightarrow> (Inl reason, db)
      | None \<Rightarrow> (Inr (requested uuid body),
                 db\<lparr>reservations := reservations db @ [requested uuid body]\<rparr>))"
proof (cases "fieldsPresent body")
  case False
  then show ?thesis
    by (simp add: createReservation_missing fieldsPresent_def checks_def)
next
  case True
  then obtain studentId canteenId date time duration where f:
    "b_studentId body = Some studentId" "studentId \<noteq> []"
    "b_canteenId body = Some canteenId" "canteenId \<noteq> []"
    "b_date body = Some date" "date \<noteq> []"
    "b_time body = Some time" "time \<noteq> []"
    "b_duration body = Some duration" "duration \<noteq> 0"
    by (rule fieldsPresentE)
  note eq = createReservation_present[OF f]
  have s: "str (b_studentId body) = studentId" "str (b_canteenId body) = canteenId"
    "str (b_date body) = date" "str (b_time body) = time" "num (b_duration body) = duration"
    using f by (simp_all add: str_def num_def)
  have r: "requested uuid body =
      \<lparr>r_id = uuid, r_studentId = studentId, r_canteenId = canteenId,
       r_date = date, r_time = time, r_duration = duration, r_status = Active\<rparr>"
    by (simp add: requested_def s)
  show ?thesis
  proof (cases "find (\<lambda>s. s_id s = studentId) (students db)")
    case None
    then show ?thesis unfolding eq
      by (simp add: checks_def True s find_None_list_ex[symmetric])
  next
    case (Some student)
    then have st: "list_ex (\<lambda>s. s_id s = studentId) (students db)"
      using find_None_list_ex[of "\<lambda>s. s_id s = studentId" "students db"] by simp
    show ?thesis
    proof (cases "find (\<lambda>c. c_id c = canteenId) (canteens db)")
      case None
      then show ?thesis unfolding eq
        by (simp add: checks_def True s st Some onGrid_def requestStart_def requestCanteen_def)
    next
      case c: (Some canteen)
      show ?thesis unfolding eq
        by (simp add: checks_def True s st Some c r onGrid_def requestStart_def requestEnd_def
            requestCanteen_def)
    qed
  qed
qed

lemma fitsBlock_fitsEntirely: "fitsBlock time duration wh = fitsEntirely time duration wh"
  by (simp add: fitsBlock_def fitsEntirely_def Let_def split: option.splits)

lemma split_first:
  "split c s = takeWhile (\<lambda>x. x \<noteq> c) s
               # (case dropWhile (\<lambda>x. x \<noteq> c) s of [] \<Rightarrow> [] | y # rest \<Rightarrow> split c rest)"
  by (induction s) (simp_all split: list.splits)

lemma at_index_split:
  "at_index (split c s) (Suc 0)
     = (case dropWhile (\<lambda>x. x \<noteq> c) s of
          [] \<Rightarrow> None
        | y # rest \<Rightarrow> Some (takeWhile (\<lambda>x. x \<noteq> c) rest))"
proof (cases "dropWhile (\<lambda>x. x \<noteq> c) s")
  case Nil
  have "split c s = [takeWhile (\<lambda>x. x \<noteq> c) s]"
    by (subst split_first) (simp add: Nil)
  then show ?thesis
    by (simp add: at_index_def Nil)
next
  case (Cons y rest)
  have "split c s = takeWhile (\<lambda>x. x \<noteq> c) s # split c rest"
    by (subst split_first) (simp add: Cons)
  also have "split c rest = takeWhile (\<lambda>x. x \<noteq> c) rest
               # (case dropWhile (\<lambda>x. x \<noteq> c) rest of [] \<Rightarrow> [] | y # rest' \<Rightarrow> split c rest')"
    by (rule split_first)
  finally show ?thesis
    by (simp add: at_index_def Cons)
qed

lemma gridAligned_onGrid: "gridAligned time = onGrid time"
  by (simp add: gridAligned_def onGrid_def minuteComponent_def at_index_split)

lemma allPresent_fieldsPresent:
  "\<not> (allPresent body \<and> b_duration body = Some 0) \<Longrightarrow> allPresent body = fieldsPresent body"
  by (auto simp: allPresent_def fieldsPresent_def truthy_str_def truthy_num_def
      split: option.splits)

lemma overlapping_isOverlapping:
  "overlapping (timeSpan L date time duration) (spanOf L r)
     = isOverlapping (startInstant L date time) (addMinutes (startInstant L date time) duration)
                     (resStart L r) (resEnd L r)"
  by (cases "startInstant L date time"; cases "startInstant L (r_date r) (r_time r)")
     (simp_all add: overlapping_def timeSpan_def spanOf_def intervalsOverlap_def isOverlapping_def
        addMinutes_def resStart_def resEnd_def startInstant_def)

lemma specChecks_checks:
  assumes "\<not> (allPresent body \<and> b_duration body = Some 0)"
  shows "specChecks L now db body = checks L now db body"
proof -
  let ?wanted = "timeSpan L (str (b_date body)) (str (b_time body)) (num (b_duration body))"
  have start: "startInstant L (str (b_date body)) (str (b_time body)) = requestStart L body"
    by (simp add: startInstant_def requestStart_def)
  have past: "(case requestStart L body of None \<Rightarrow> True | Some start \<Rightarrow> now \<le> start)
      = (\<not> isBefore (requestStart L body) (Some now))"
    by (cases "requestStart L body") (auto simp: isBefore_def)
  have fit: "list_ex (fitsEntirely time duration) (c_workingHours c) = fitsInSchedule c time duration"
    for c time duration
    by (simp add: fitsInSchedule_def list_ex_iff fitsBlock_fitsEntirely)
  have own: "(\<lambda>r. r_status r = Active \<and> r_studentId r = sid \<and> overlapping ?wanted (spanOf L r))
      = (\<lambda>r. if r_studentId r \<noteq> sid \<or> r_status r = Cancelled then False
              else isOverlapping (requestStart L body) (requestEnd L body) (resStart L r) (resEnd L r))"
    for sid
  proof (rule ext)
    fix r
    show "(r_status r = Active \<and> r_studentId r = sid \<and> overlapping ?wanted (spanOf L r))
      = (if r_studentId r \<noteq> sid \<or> r_status r = Cancelled then False
         else isOverlapping (requestStart L body) (requestEnd L body) (resStart L r) (resEnd L r))"
      by (cases "r_status r") (auto simp: overlapping_isOverlapping start requestEnd_def)
  qed
  have room: "(\<lambda>r. r_status r = Active \<and> r_canteenId r = cid \<and> overlapping ?wanted (spanOf L r))
      = (\<lambda>r. if r_canteenId r \<noteq> cid \<or> r_status r = Cancelled then False
              else isOverlapping (requestStart L body) (requestEnd L body) (resStart L r) (resEnd L r))"
    for cid
  proof (rule ext)
    fix r
    show "(r_status r = Active \<and> r_canteenId r = cid \<and> overlapping ?wanted (spanOf L r))
      = (if r_canteenId r \<noteq> cid \<or> r_status r = Cancelled then False
         else isOverlapping (requestStart L body) (requestEnd L body) (resStart L r) (resEnd L r))"
      by (cases "r_status r") (auto simp: overlapping_isOverlapping start requestEnd_def)
  qed
  show ?thesis
    unfolding specChecks_def checks_def Let_def own room
    by (simp add: allPresent_fieldsPresent[OF assms] gridAligned_onGrid start past fit
        requestCanteen_def studentHasOverlap_def concurrentReservations_def
        split: option.split)
qed


lemma resStart_status [simp]: "resStart L (r\<lparr>r_status := s\<rparr>) = resStart L r"
  by (simp add: resStart_def)

lemma resEnd_status [simp]: "resEnd L (r\<lparr>r_status := s\<rparr>) = resEnd L r"
  by (simp add: resEnd_def)




















lemma containsInstant_status [simp]:
  "containsInstant L (r\<lparr>r_status := s\<rparr>) \<tau> = containsInstant L r \<tau>"
  by (simp add: containsInstant_def)









lemma activeAt_canteens [simp]: "activeAt L (db\<lparr>canteens := cs\<rparr>) cid \<tau> = activeAt L db cid \<tau>"
  by (simp add: activeAt_def)









lemma list_ex_update_neutral:
  "i < length xs \<Longrightarrow> \<not> P y \<Longrightarrow> list_ex P (xs[i := y]) = list_ex P (take i xs @ drop (Suc i) xs)"
  by (simp add: upd_conv_take_nth_drop list_ex_iff)

lemma filter_update_neutral:
  "i < length xs \<Longrightarrow> \<not> P y \<Longrightarrow> filter P (xs[i := y]) = filter P (take i xs @ drop (Suc i) xs)"
  by (simp add: upd_conv_take_nth_drop)

lemma checks_cancelled_like_absent:
  assumes i: "i < length (reservations db)"
  shows "checks L now
           (db\<lparr>reservations := (reservations db)[i := (reservations db ! i)\<lparr>r_status := Cancelled\<rparr>]\<rparr>)
           body
         = checks L now (withoutReservation db i) body"
proof -
  let ?c = "(reservations db ! i)\<lparr>r_status := Cancelled\<rparr>"
  have a: "studentHasOverlap L (db\<lparr>reservations := (reservations db)[i := ?c]\<rparr>) sid s e
        = studentHasOverlap L (withoutReservation db i) sid s e" for sid s e
    using i by (simp add: studentHasOverlap_def withoutReservation_def list_ex_update_neutral)
  have b: "concurrentReservations L (db\<lparr>reservations := (reservations db)[i := ?c]\<rparr>) cid s e
        = concurrentReservations L (withoutReservation db i) cid s e" for cid s e
    using i by (simp add: concurrentReservations_def withoutReservation_def filter_update_neutral)
  show ?thesis
    unfolding checks_def a b by (simp add: withoutReservation_def requestCanteen_def)
qed

lemma checks_clock:
  assumes "list_all fst (checks L now db body)" "\<not> isBefore (requestStart L body) (Some now')"
  shows "list_all fst (checks L now' db body)"
  using assms by (simp add: checks_def)

lemma utc_parse:
  "parse utc ''2025-12-05T07:00'' yyyy_MM_dd_T_HH_mm = Some 1764918000000"
  "parse utc ''2025-12-05T09:30'' yyyy_MM_dd_T_HH_mm = Some 1764927000000"
  "parse utc ''2025-12-05T10:00'' yyyy_MM_dd_T_HH_mm = Some 1764928800000"
  "parse utc ''2025-12-05T10:30'' yyyy_MM_dd_T_HH_mm = Some 1764930600000"
  "parse utc ''2025-12-05T11:00'' yyyy_MM_dd_T_HH_mm = Some 1764932400000"
  "parse utc ''2025-12-05T11:30'' yyyy_MM_dd_T_HH_mm = Some 1764934200000"
  "parse utc ''2025-12-05T12:00'' yyyy_MM_dd_T_HH_mm = Some 1764936000000"
  "parse utc ''2025-12-05T12:15'' yyyy_MM_dd_T_HH_mm = Some 1764936900000"
  "parse utc ''2025-12-05T12:30'' yyyy_MM_dd_T_HH_mm = Some 1764937800000"
  "parse utc ''2025-12-05T15:00'' yyyy_MM_dd_T_HH_mm = Some 1764946800000"
  "parse utc ''2025-12-05T17:00'' yyyy_MM_dd_T_HH_mm = Some 1764954000000"
  "parse utc ''2025-12-05T20:00'' yyyy_MM_dd_T_HH_mm = Some 1764964800000"
  "parse utc ''2025-12-06T07:00'' yyyy_MM_dd_T_HH_mm = Some 1765004400000"
  "parse utc ''2025-12-06T10:00'' yyyy_MM_dd_T_HH_mm = Some 1765015200000"
  "parse utc ''2025-12-06T10:30'' yyyy_MM_dd_T_HH_mm = Some 1765017000000"
  "parse utc ''2025-12-06T11:00'' yyyy_MM_dd_T_HH_mm = Some 1765018800000"
  "parse utc ''2025-12-06T12:30'' yyyy_MM_dd_T_HH_mm = Some 1765024200000"
  "parse utc ''2025-12-06T15:00'' yyyy_MM_dd_T_HH_mm = Some 1765033200000"
  "parse utc ''2025-12-06T17:00'' yyyy_MM_dd_T_HH_mm = Some 1765040400000"
  "parse utc ''2025-12-06T20:00'' yyyy_MM_dd_T_HH_mm = Some 1765051200000"
  "parse utc ''2025-12-05'' yyyy_MM_dd = Some 1764892800000"
  "parse utc ''2025-12-06'' yyyy_MM_dd = Some 1764979200000"
  by code_simp+

lemma utc_format:
  "format utc 1764892800000 yyyy_MM_dd = ''2025-12-05''"
  "format utc 1764930600000 HH_mm = ''10:30''"
  "format utc 1764932400000 HH_mm = ''11:00''"
  "format utc 1764934200000 HH_mm = ''11:30''"
  "format utc 1764936000000 HH_mm = ''12:00''"
  "format utc 1764979200000 yyyy_MM_dd = ''2025-12-06''"
  "format utc 1765017000000 HH_mm = ''10:30''"
  "format utc 1765018800000 HH_mm = ''11:00''"
  "format utc 1765020600000 HH_mm = ''11:30''"
  "format utc 1765022400000 HH_mm = ''12:00''"
  by code_simp+

lemma toMin_examples:
  "toMin ''07:00'' = Some 420"
  "toMin ''09:30'' = Some 570"
  "toMin ''10:00'' = Some 600"
  "toMin ''11:00'' = Some 660"
  "toMin ''11:30'' = Some 690"
  "toMin ''12:00'' = Some 720"
  "toMin ''12:15'' = Some 735"
  "toMin ''12:30'' = Some 750"
  "toMin ''15:00'' = Some 900"
  "toMin ''17:00'' = Some 1020"
  "toMin ''20:00'' = Some 1200"
  by code_simp+

lemma split_examples:
  "split CHR '':'' ''09:30'' = [''09'', ''30'']"
  "split CHR '':'' ''10:00'' = [''10'', ''00'']"
  "split CHR '':'' ''11:30'' = [''11'', ''30'']"
  "split CHR '':'' ''12:00'' = [''12'', ''00'']"
  "split CHR '':'' ''12:15'' = [''12'', ''15'']"
  "split CHR '':'' ''12:30'' = [''12'', ''30'']"
  by code_simp+

lemmas example_defs =
  exampleDb_def exampleCanteen_def exampleStudents_def exampleNow_def request_def booked_def
  bookedDb_def adjacentDb_def strayRequest_def exampleOps_def resize_def noon_def emptyDb_def
  withoutReservation_def

lemmas model_defs =
  createReservation_def cancelReservation_def createStudent_def createCanteen_def
  updateCanteen_def deleteCanteen_def isAdmin_def spread_def truthy_str_def truthy_num_def
  Let_def at_index_def isBefore_def isEqual_def fitsInSchedule_def fitsBlock_def
  studentHasOverlap_def concurrentReservations_def isOverlapping_def resStart_def resEnd_def
  addMinutes_def checks_def fieldsPresent_def onGrid_def requestStart_def
  requestEnd_def requestCanteen_def str_def num_def requested_def activeAt_def
  containsInstant_def

lemmas example_eval = example_defs model_defs utc_parse utc_format toMin_examples split_examples

lemmas spec_defs =
  specChecks_def allPresent_def gridAligned_def minuteComponent_def startInstant_def
  timeSpan_def spanOf_def overlapping_def intervalsOverlap_def fitsEntirely_def































section \<open>Properties\<close>

text \<open>
  C1, as stated, fails at a duration of 0. In the example store the request of student-2
  for 11:00 with duration 0 passes the first two checks of the specification, which counts
  the duration as present, and fails the third, so the first failing check is the one
  that reports InvalidDuration; \<open>createReservation\<close> answers MissingFields, because its
  first guard tests the truthiness of the duration.
\<close>

theorem createReservation_first_failing_check_counterexample:
  "map fst (specChecks utc exampleNow exampleDb (request ''student-2'' ''11:00'' 0))
     = [True, True, False, True, True, True, True, True, True]
   \<and> firstFailure (specChecks utc exampleNow exampleDb (request ''student-2'' ''11:00'' 0))
     = Some InvalidDuration
   \<and> createReservation utc exampleNow ''r1'' exampleDb (request ''student-2'' ''11:00'' 0)
     = (Inl MissingFields, exampleDb)"
  by (simp add: spec_defs example_eval)

text \<open>
  C1, amended. For every request but one that carries all four strings, none of them
  empty, and the duration 0, \<open>createReservation\<close> is the specification's chain of nine
  checks: its answer is the reason of the first check of
  \<open>specChecks\<close> that does not pass, with the store unchanged; the reasons come in the order
  MissingFields, StudentNotFound, InvalidDuration, InvalidTimeSlot, PastReservation,
  CanteenNotFound, OutsideWorkingHours, StudentDoubleBooked, CapacityExceeded; whenever
  all checks before the \<open>k\<close>-th pass and the \<open>k\<close>-th fails, the \<open>k\<close>-th reason is reported,
  whatever the later checks would say. When every check passes, the requested reservation
  is appended with status Active and returned.
\<close>

theorem createReservation_first_failing_check:
  assumes "\<not> (allPresent body \<and> b_duration body = Some 0)"
  shows "createReservation L now uuid db body =
     (case firstFailure (specChecks L now db body) of
        Some reason \<Rightarrow> (Inl reason, db)
      | None \<Rightarrow> (Inr (requested uuid body),
                 db\<lparr>reservations := reservations db @ [requested uuid body]\<rparr>))
   \<and> map snd (specChecks L now db body) =
       [MissingFields, StudentNotFound, InvalidDuration, InvalidTimeSlot, PastReservation,
        CanteenNotFound, OutsideWorkingHours, StudentDoubleBooked, CapacityExceeded]
   \<and> (\<forall>k<9. (\<forall>j<k. fst (specChecks L now db body ! j)) \<and> \<not> fst (specChecks L now db body ! k)
         \<longrightarrow> createReservation L now uuid db body = (Inl (snd (specChecks L now db body ! k)), db))
   \<and> r_status (requested uuid body) = Active"
proof -
  note eq = specChecks_checks[OF assms]
  have len: "length (checks L now db body) = 9"
    by (simp add: checks_def)
  have "createReservation L now uuid db body = (Inl (snd (checks L now db body ! k)), db)"
    if "k < 9" "\<forall>j<k. fst (checks L now db body ! j)" "\<not> fst (checks L now db body ! k)" for k
  proof -
    from that len
    have "firstFailure (checks L now db body) = Some (snd (checks L now db body ! k))"
      unfolding firstFailure_Some_iff by auto
    then show ?thesis by (simp add: createReservation_firstFailure)
  qed
  then show ?thesis
    unfolding eq by (simp add: createReservation_firstFailure checks_reasons requested_def)
qed

text \<open>
  In the booked example store, where \<open>canteen-1\<close> has room for two: student-1's request
  for the hour from 12:00 fails checks 8 and 9 and is answered StudentDoubleBooked; the
  admin's request for 10:00 fails check 7 alone; the admin's request for 12:00 fails
  check 9 alone; student-2's request for 12:30 passes every check and is stored. The
  stray request fails checks 2, 3, 4, 6, 7 and 9 and is answered with the reason of
  check 2.
\<close>

theorem createReservation_first_failing_check_witness:
  "map fst (specChecks utc exampleNow bookedDb (request ''student-1'' ''12:00'' 60))
     = [True, True, True, True, True, True, True, False, False]
   \<and> createReservation utc exampleNow ''r5'' bookedDb (request ''student-1'' ''12:00'' 60)
     = (Inl StudentDoubleBooked, bookedDb)
   \<and> map fst (specChecks utc exampleNow bookedDb (request ''admin-id'' ''10:00'' 30))
     = [True, True, True, True, True, True, False, True, True]
   \<and> createReservation utc exampleNow ''r5'' bookedDb (request ''admin-id'' ''10:00'' 30)
     = (Inl OutsideWorkingHours, bookedDb)
   \<and> map fst (specChecks utc exampleNow bookedDb (request ''admin-id'' ''12:00'' 30))
     = [True, True, True, True, True, True, True, True, False]
   \<and> createReservation utc exampleNow ''r5'' bookedDb (request ''admin-id'' ''12:00'' 30)
     = (Inl CapacityExceeded, bookedDb)
   \<and> map fst (specChecks utc exampleNow bookedDb strayRequest)
     = [True, False, False, False, True, False, False, True, False]
   \<and> createReservation utc exampleNow ''r5'' bookedDb strayRequest
     = (Inl StudentNotFound, bookedDb)
   \<and> createReservation utc exampleNow ''r5'' bookedDb (request ''student-2'' ''12:30'' 30)
     = (Inr (booked ''r5'' ''student-2'' ''12:30'' 30 Active),
        bookedDb\<lparr>reservations := reservations bookedDb
                                  @ [booked ''r5'' ''student-2'' ''12:30'' 30 Active]\<rparr>)"
proof -
  have a: "specChecks utc exampleNow bookedDb (request ''student-1'' ''12:00'' 60)
     = [(True, MissingFields), (True, StudentNotFound), (True, InvalidDuration),
        (True, InvalidTimeSlot), (True, PastReservation), (True, CanteenNotFound),
        (True, OutsideWorkingHours), (False, StudentDoubleBooked), (False, CapacityExceeded)]"
    by (simp add: spec_defs example_eval)
  have b: "specChecks utc exampleNow bookedDb (request ''admin-id'' ''10:00'' 30)
     = [(True, MissingFields), (True, StudentNotFound), (True, InvalidDuration),
        (True, InvalidTimeSlot), (True, PastReservation), (True, CanteenNotFound),
        (False, OutsideWorkingHours), (True, StudentDoubleBooked), (True, CapacityExceeded)]"
    by (simp add: spec_defs example_eval)
  have c: "specChecks utc exampleNow bookedDb (request ''admin-id'' ''12:00'' 30)
     = [(True, MissingFields), (True, StudentNotFound), (True, InvalidDuration),
        (True, InvalidTimeSlot), (True, PastReservation), (True, CanteenNotFound),
        (True, OutsideWorkingHours), (True, StudentDoubleBooked), (False, CapacityExceeded)]"
    by (simp add: spec_defs example_eval)
  have d: "specChecks utc exampleNow bookedDb strayRequest
     = [(True, MissingFields), (False, StudentNotFound), (False, InvalidDuration),
        (False, InvalidTimeSlot), (True, PastReservation), (False, CanteenNotFound),
        (False, OutsideWorkingHours), (True, StudentDoubleBooked), (False, CapacityExceeded)]"
    by (simp add: spec_defs example_eval)
  have e: "firstFailure (specChecks utc exampleNow bookedDb (request ''student-2'' ''12:30'' 30))
     = None"
    by (simp add: spec_defs example_eval)
  have r: "requested ''r5'' (request ''student-2'' ''12:30'' 30)
     = booked ''r5'' ''student-2'' ''12:30'' 30 Active"
    by (simp add: requested_def request_def booked_def str_def num_def)
  have n: "\<not> (allPresent (request studentId time 60)
              \<and> b_duration (request studentId time 60) = Some 0)"
    "\<not> (allPresent (request studentId time 30) \<and> b_duration (request studentId time 30) = Some 0)"
    "\<not> (allPresent strayRequest \<and> b_duration strayRequest = Some 0)"
    for studentId time
    by (simp_all add: request_def strayRequest_def)
  show ?thesis
    using createReservation_first_failing_check
            [OF n(1), of utc exampleNow "''r5''" bookedDb "''student-1''" "''12:00''"]
      createReservation_first_failing_check
            [OF n(2), of utc exampleNow "''r5''" bookedDb "''admin-id''" "''10:00''"]
      createReservation_first_failing_check
            [OF n(2), of utc exampleNow "''r5''" bookedDb "''admin-id''" "''12:00''"]
      createReservation_first_failing_check
            [OF n(3), of utc exampleNow "''r5''" bookedDb]
      createReservation_first_failing_check
            [OF n(2), of utc exampleNow "''r5''" bookedDb "''student-2''" "''12:30''"]
    by (simp add: a b c d e r)
qed

text \<open>
  C2. For a request that reaches the working-hours check (the six checks before it pass),
  the check accepts the request exactly when one block of the canteen contains it
  entirely: in minute offsets of the day, the request starts no earlier than the block
  and ends no later. Each block is tried alone, so a request that runs from one block
  into the next is rejected.
\<close>

theorem working_hours_single_block:
  assumes "list_all fst (take 6 (checks L now db body))"
    and "requestCanteen db body = Some canteen"
  shows "(fst (createReservation L now uuid db body) \<noteq> Inl OutsideWorkingHours)
         = (\<exists>wh\<in>set (c_workingHours canteen).
              fitsEntirely (str (b_time body)) (num (b_duration body)) wh)"
proof -
  have fit: "fitsInSchedule canteen (str (b_time body)) (num (b_duration body))
      = (\<exists>wh\<in>set (c_workingHours canteen).
              fitsEntirely (str (b_time body)) (num (b_duration body)) wh)"
    by (simp add: fitsInSchedule_def list_ex_iff fitsBlock_fitsEntirely)
  from assms show ?thesis
    unfolding fit[symmetric] createReservation_firstFailure
    by (simp add: checks_def)
qed

text \<open>
  With breakfast 07:00 to 10:00 and lunch 11:00 to 15:00, the request for 30 minutes at
  10:00 reaches the check, fits no block and is answered OutsideWorkingHours. With lunch
  starting at 10:00, the hour from 09:30 is rejected too, although the half hour from 09:30
  is accepted.
\<close>

theorem working_hours_single_block_witness:
  "list_all fst (take 6 (checks utc exampleNow exampleDb (request ''student-1'' ''10:00'' 30)))
   \<and> requestCanteen exampleDb (request ''student-1'' ''10:00'' 30) = Some exampleCanteen
   \<and> fst (createReservation utc exampleNow ''r1'' exampleDb (request ''student-1'' ''10:00'' 30))
       = Inl OutsideWorkingHours
   \<and> \<not> (\<exists>wh\<in>set (c_workingHours exampleCanteen). fitsEntirely ''10:00'' 30 wh)
   \<and> list_all fst (take 6 (checks utc exampleNow adjacentDb (request ''student-1'' ''09:30'' 60)))
   \<and> fst (createReservation utc exampleNow ''r1'' adjacentDb (request ''student-1'' ''09:30'' 60))
       = Inl OutsideWorkingHours
   \<and> fst (createReservation utc exampleNow ''r1'' adjacentDb (request ''student-1'' ''09:30'' 30))
       = Inr (booked ''r1'' ''student-1'' ''09:30'' 30 Active)"
proof -
  have a: "list_all fst (take 6 (checks utc exampleNow exampleDb (request ''student-1'' ''10:00'' 30)))"
    by (simp add: example_eval)
  have b: "requestCanteen exampleDb (request ''student-1'' ''10:00'' 30) = Some exampleCanteen"
    by (simp add: example_eval)
  have c: "fst (createReservation utc exampleNow ''r1'' exampleDb (request ''student-1'' ''10:00'' 30))
       = Inl OutsideWorkingHours"
    by (simp add: example_eval)
  have d: "list_all fst (take 6 (checks utc exampleNow adjacentDb (request ''student-1'' ''09:30'' 60)))"
    by (simp add: example_eval)
  have e: "fst (createReservation utc exampleNow ''r1'' adjacentDb (request ''student-1'' ''09:30'' 60))
       = Inl OutsideWorkingHours"
    by (simp add: example_eval)
  have f: "fst (createReservation utc exampleNow ''r1'' adjacentDb (request ''student-1'' ''09:30'' 30))
       = Inr (booked ''r1'' ''student-1'' ''09:30'' 30 Active)"
    by (simp add: example_eval)
  have g: "str (b_time (request ''student-1'' ''10:00'' 30)) = ''10:00''"
     "num (b_duration (request ''student-1'' ''10:00'' 30)) = 30"
    by (simp_all add: request_def str_def num_def)
  from working_hours_single_block[OF a b, of "''r1''"] c
  have h: "\<not> (\<exists>wh\<in>set (c_workingHours exampleCanteen). fitsEntirely ''10:00'' 30 wh)"
    unfolding g by simp
  from a b c h d e f show ?thesis by simp
qed









text \<open>
  C6. The overlap test is the half-open one: on valid dates \<open>isOverlapping\<close> holds exactly
  when \<open>startA < endB\<close> and \<open>endA > startB\<close>, two intervals that touch at an endpoint do not
  overlap, and the slot calculator, which writes the comparison out, counts the same
  reservations as the validator's capacity check.
\<close>

theorem isOverlapping_half_open:
  "isOverlapping (Some startA) (Some endA) (Some startB) (Some endB)
     = (startA < endB \<and> endA > startB)
   \<and> \<not> isOverlapping (Some startA) (Some t) (Some t) (Some endB)
   \<and> \<not> isOverlapping (Some t) (Some endA) (Some startB) (Some t)
   \<and> activeReservations L db canteen s e = length (concurrentReservations L db (c_id canteen) s e)"
  by (simp add: isOverlapping_def activeReservations_def concurrentReservations_def)

text \<open>
  In the example store, after student-1 books 11:30 for 30 minutes, the same student's
  request for 12:00 is accepted and both reservations are Active.
\<close>

theorem isOverlapping_half_open_witness:
  "\<not> isOverlapping (parse utc ''2025-12-05T11:30'' yyyy_MM_dd_T_HH_mm)
        (parse utc ''2025-12-05T12:00'' yyyy_MM_dd_T_HH_mm)
        (parse utc ''2025-12-05T12:00'' yyyy_MM_dd_T_HH_mm)
        (parse utc ''2025-12-05T12:30'' yyyy_MM_dd_T_HH_mm)
   \<and> createReservation utc exampleNow ''r2''
        (exampleDb\<lparr>reservations := [booked ''r1'' ''student-1'' ''11:30'' 30 Active]\<rparr>)
        (request ''student-1'' ''12:00'' 30)
      = (Inr (booked ''r2'' ''student-1'' ''12:00'' 30 Active),
         exampleDb\<lparr>reservations := [booked ''r1'' ''student-1'' ''11:30'' 30 Active,
                                      booked ''r2'' ''student-1'' ''12:00'' 30 Active]\<rparr>)"
proof -
  have p1: "parse utc ''2025-12-05T11:30'' yyyy_MM_dd_T_HH_mm = Some 1764934200000"
    by (simp add: example_eval)
  have p2: "parse utc ''2025-12-05T12:00'' yyyy_MM_dd_T_HH_mm = Some 1764936000000"
    by (simp add: example_eval)
  have p3: "parse utc ''2025-12-05T12:30'' yyyy_MM_dd_T_HH_mm = Some 1764937800000"
    by (simp add: example_eval)
  have a: "\<not> isOverlapping (parse utc ''2025-12-05T11:30'' yyyy_MM_dd_T_HH_mm)
        (parse utc ''2025-12-05T12:00'' yyyy_MM_dd_T_HH_mm)
        (parse utc ''2025-12-05T12:00'' yyyy_MM_dd_T_HH_mm)
        (parse utc ''2025-12-05T12:30'' yyyy_MM_dd_T_HH_mm)"
    unfolding p1 p2 p3
    using isOverlapping_half_open[of 1764934200000 1764936000000 1764936000000 1764937800000]
    by simp
  have b: "createReservation utc exampleNow ''r2''
        (exampleDb\<lparr>reservations := [booked ''r1'' ''student-1'' ''11:30'' 30 Active]\<rparr>)
        (request ''student-1'' ''12:00'' 30)
      = (Inr (booked ''r2'' ''student-1'' ''12:00'' 30 Active),
         exampleDb\<lparr>reservations := [booked ''r1'' ''student-1'' ''11:30'' 30 Active,
                                      booked ''r2'' ''student-1'' ''12:00'' 30 Active]\<rparr>)"
    by (simp add: example_eval)
  from a b show ?thesis by simp
qed

text \<open>
  C7. \<open>cancelReservation\<close> answers \<open>NotFound\<close> exactly when no stored reservation has the
  id, and then leaves the store as it is. Otherwise it returns the first reservation with
  that id with its status set to Cancelled, whatever the status was, and stores it in
  place; a reservation that was already Cancelled is returned as it is and the store does
  not change.
\<close>

theorem cancelReservation_contract:
  "(fst (cancelReservation db rid) = Inl NotFound) = (\<forall>r\<in>set (reservations db). r_id r \<noteq> rid)
   \<and> (case cancelReservation db rid of
        (Inl e, db') \<Rightarrow> db' = db
      | (Inr r, db') \<Rightarrow>
          (\<exists>i<length (reservations db).
             r_id (reservations db ! i) = rid \<and> (\<forall>j<i. r_id (reservations db ! j) \<noteq> rid)
             \<and> r = (reservations db ! i)\<lparr>r_status := Cancelled\<rparr>
             \<and> db' = db\<lparr>reservations := (reservations db)[i := r]\<rparr>
             \<and> (r_status (reservations db ! i) = Cancelled
                  \<longrightarrow> r = reservations db ! i \<and> db' = db)))"
proof (cases "findIndex (\<lambda>r. r_id r = rid) (reservations db)")
  case None
  from None have "\<forall>r\<in>set (reservations db). r_id r \<noteq> rid"
    by (simp add: findIndex_None)
  with None show ?thesis
    by (simp add: cancelReservation_def)
next
  case (Some i)
  from findIndex_Some[OF Some]
  have i: "i < length (reservations db)" "r_id (reservations db ! i) = rid"
    "\<forall>j<i. r_id (reservations db ! j) \<noteq> rid" by auto
  from i(1,2) have ex: "\<not> (\<forall>r\<in>set (reservations db). r_id r \<noteq> rid)"
    using nth_mem by blast
  from i Some ex show ?thesis
    by (auto simp: cancelReservation_def Let_def status_same intro!: exI[of _ i])
qed

text \<open>
  Cancelling the Cancelled reservation \<open>r1\<close> returns it, still Cancelled; cancelling the
  Active one returns it Cancelled; the id \<open>r2\<close> is not in the store.
\<close>

theorem cancelReservation_contract_witness:
  "cancelReservation
     (exampleDb\<lparr>reservations := [booked ''r1'' ''student-1'' ''11:30'' 30 Cancelled]\<rparr>) ''r1''
     = (Inr (booked ''r1'' ''student-1'' ''11:30'' 30 Cancelled),
        exampleDb\<lparr>reservations := [booked ''r1'' ''student-1'' ''11:30'' 30 Cancelled]\<rparr>)
   \<and> cancelReservation
       (exampleDb\<lparr>reservations := [booked ''r1'' ''student-1'' ''11:30'' 30 Active]\<rparr>) ''r1''
     = (Inr (booked ''r1'' ''student-1'' ''11:30'' 30 Cancelled),
        exampleDb\<lparr>reservations := [booked ''r1'' ''student-1'' ''11:30'' 30 Cancelled]\<rparr>)
   \<and> fst (cancelReservation
            (exampleDb\<lparr>reservations := [booked ''r1'' ''student-1'' ''11:30'' 30 Active]\<rparr>) ''r2'')
     = Inl NotFound"
  using cancelReservation_contract
    [of "exampleDb\<lparr>reservations := [booked ''r1'' ''student-1'' ''11:30'' 30 Active]\<rparr>" "''r2''"]
  by (simp add: cancelReservation_def booked_def Let_def)

text \<open>
  C8. Take a store in which a request is answered StudentDoubleBooked or CapacityExceeded,
  and a stored reservation that is the only obstacle: in the store without it, the same
  request is accepted. Then after cancelling that reservation the same request, sent
  again while its start is still not in the past, is accepted: the requested reservation
  is appended with status Active and returned. A Cancelled reservation counts, for the
  double-booking check and for the capacity check, like one that is not there.
\<close>

theorem cancel_then_rebook:
  assumes "fst (createReservation L now uuid db body) = Inl StudentDoubleBooked
           \<or> fst (createReservation L now uuid db body) = Inl CapacityExceeded"
    and "findIndex (\<lambda>r. r_id r = rid) (reservations db) = Some i"
    and "\<exists>r. fst (createReservation L now uuid (withoutReservation db i) body) = Inr r"
    and "\<not> isBefore (requestStart L body) (Some now')"
    and "db' = snd (cancelReservation db rid)"
  shows "createReservation L now' uuid' db' body
           = (Inr (requested uuid' body),
              db'\<lparr>reservations := reservations db' @ [requested uuid' body]\<rparr>)
         \<and> r_status (requested uuid' body) = Active
         \<and> r_status (reservations db' ! i) = Cancelled"
proof -
  from findIndex_Some[OF assms(2)] have i: "i < length (reservations db)" by simp
  have db': "db' = db\<lparr>reservations :=
                       (reservations db)[i := (reservations db ! i)\<lparr>r_status := Cancelled\<rparr>]\<rparr>"
    using assms(2,5) by (simp add: cancelReservation_def Let_def)
  from assms(3) have "firstFailure (checks L now (withoutReservation db i) body) = None"
    by (auto simp: createReservation_firstFailure split: option.splits)
  then have "list_all fst (checks L now (withoutReservation db i) body)"
    by (simp add: firstFailure_None_iff)
  then have "list_all fst (checks L now' (withoutReservation db i) body)"
    using assms(4) by (rule checks_clock)
  then have "list_all fst (checks L now' db' body)"
    unfolding db' checks_cancelled_like_absent[OF i] .
  then have "firstFailure (checks L now' db' body) = None"
    by (simp add: firstFailure_None_iff)
  then have "createReservation L now' uuid' db' body
           = (Inr (requested uuid' body),
              db'\<lparr>reservations := reservations db' @ [requested uuid' body]\<rparr>)"
    by (simp add: createReservation_firstFailure)
  moreover have "r_status (reservations db' ! i) = Cancelled"
    using i by (simp add: db')
  ultimately show ?thesis by (simp add: requested_def)
qed

text \<open>
  In the booked example store the canteen is full at 12:00, so the admin's request is
  answered CapacityExceeded; without \<open>r4\<close> it would be accepted. A minute later, after
  \<open>r4\<close> is cancelled, the same request is accepted and stored. Student-1's second request
  for 12:00 is answered StudentDoubleBooked and is accepted once \<open>r1\<close> is cancelled.
\<close>

theorem cancel_then_rebook_witness:
  "fst (createReservation utc exampleNow ''r5'' bookedDb (request ''admin-id'' ''12:00'' 30))
     = Inl CapacityExceeded
   \<and> findIndex (\<lambda>r. r_id r = ''r4'') (reservations bookedDb) = Some 2
   \<and> fst (createReservation utc exampleNow ''r5'' (withoutReservation bookedDb 2)
            (request ''admin-id'' ''12:00'' 30))
     = Inr (booked ''r5'' ''admin-id'' ''12:00'' 30 Active)
   \<and> \<not> isBefore (requestStart utc (request ''admin-id'' ''12:00'' 30)) (Some (exampleNow + 60000))
   \<and> fst (createReservation utc (exampleNow + 60000) ''r6'' (snd (cancelReservation bookedDb ''r4''))
            (request ''admin-id'' ''12:00'' 30))
     = Inr (booked ''r6'' ''admin-id'' ''12:00'' 30 Active)
   \<and> reservations (snd (createReservation utc (exampleNow + 60000) ''r6''
                          (snd (cancelReservation bookedDb ''r4''))
                          (request ''admin-id'' ''12:00'' 30)))
     = [booked ''r1'' ''student-1'' ''12:00'' 30 Active,
        booked ''r3'' ''student-1'' ''12:30'' 30 Active,
        booked ''r4'' ''student-2'' ''12:00'' 30 Cancelled,
        booked ''r6'' ''admin-id'' ''12:00'' 30 Active]
   \<and> fst (createReservation utc exampleNow ''r5'' bookedDb (request ''student-1'' ''12:00'' 30))
     = Inl StudentDoubleBooked
   \<and> fst (createReservation utc exampleNow ''r6'' (snd (cancelReservation bookedDb ''r1''))
            (request ''student-1'' ''12:00'' 30))
     = Inr (booked ''r6'' ''student-1'' ''12:00'' 30 Active)"
proof -
  have a: "fst (createReservation utc exampleNow ''r5'' bookedDb (request ''admin-id'' ''12:00'' 30))
     = Inl CapacityExceeded"
    by (simp add: example_eval)
  have b: "findIndex (\<lambda>r. r_id r = ''r4'') (reservations bookedDb) = Some 2"
    by (simp add: example_eval)
  have c: "fst (createReservation utc exampleNow ''r5'' (withoutReservation bookedDb 2)
            (request ''admin-id'' ''12:00'' 30))
     = Inr (booked ''r5'' ''admin-id'' ''12:00'' 30 Active)"
    by (simp add: example_eval)
  have d: "\<not> isBefore (requestStart utc (request ''admin-id'' ''12:00'' 30)) (Some (exampleNow + 60000))"
    by (simp add: example_eval)
  have e: "requested ''r6'' (request ''admin-id'' ''12:00'' 30) = booked ''r6'' ''admin-id'' ''12:00'' 30 Active"
    by (simp add: requested_def request_def booked_def str_def num_def)
  have f: "reservations (snd (cancelReservation bookedDb ''r4''))
      = [booked ''r1'' ''student-1'' ''12:00'' 30 Active,
        booked ''r3'' ''student-1'' ''12:30'' 30 Active,
        booked ''r4'' ''student-2'' ''12:00'' 30 Cancelled]"
    by (simp add: example_eval)
  have g: "fst (createReservation utc exampleNow ''r5'' bookedDb (request ''student-1'' ''12:00'' 30))
     = Inl StudentDoubleBooked"
    by (simp add: example_eval)
  have h: "fst (createReservation utc exampleNow ''r6'' (snd (cancelReservation bookedDb ''r1''))
            (request ''student-1'' ''12:00'' 30))
     = Inr (booked ''r6'' ''student-1'' ''12:00'' 30 Active)"
    by (simp add: example_eval)
  from c have c': "\<exists>r. fst (createReservation utc exampleNow ''r5'' (withoutReservation bookedDb 2)
            (request ''admin-id'' ''12:00'' 30)) = Inr r"
    by blast
  note t = cancel_then_rebook[OF disjI2[OF a] b c' d refl, of "''r6''"]
  from t a b c d g h show ?thesis
    by (simp add: e f)
qed

text \<open>
  C9, as stated, fails: with every string field present and non-empty and the student in
  the store, a duration of 0 is answered MissingFields, not InvalidDuration.
\<close>

theorem duration_zero_counterexample:
  "b_studentId (request ''student-1'' ''12:00'' 0) = Some ''student-1''
   \<and> b_canteenId (request ''student-1'' ''12:00'' 0) = Some ''canteen-1''
   \<and> b_date (request ''student-1'' ''12:00'' 0) = Some ''2025-12-05''
   \<and> b_time (request ''student-1'' ''12:00'' 0) = Some ''12:00''
   \<and> b_duration (request ''student-1'' ''12:00'' 0) = Some 0
   \<and> fst (createReservation utc exampleNow ''r1'' exampleDb (request ''student-1'' ''12:00'' 0))
       = Inl MissingFields
   \<and> fst (createReservation utc exampleNow ''r1'' exampleDb (request ''student-1'' ''12:00'' 0))
       \<noteq> Inl InvalidDuration"
  by (simp add: request_def createReservation_def truthy_num_def)

text \<open>
  C9, amended. A duration of 0 is answered MissingFields, like an empty string field:
  the first check tests the truthiness of all five fields. InvalidDuration is the answer
  when the five fields are present and truthy, the student exists and the duration is
  neither 30 nor 60.
\<close>

theorem duration_zero_is_missing:
  "(b_duration body = Some 0 \<longrightarrow> createReservation L now uuid db body = (Inl MissingFields, db))
   \<and> (b_studentId body = Some [] \<or> b_canteenId body = Some [] \<or> b_date body = Some []
        \<or> b_time body = Some []
      \<longrightarrow> createReservation L now uuid db body = (Inl MissingFields, db))
   \<and> (truthy_str (b_studentId body) \<and> truthy_str (b_canteenId body) \<and> truthy_str (b_date body)
        \<and> truthy_str (b_time body) \<and> b_duration body = Some d \<and> d \<noteq> 0 \<and> d \<noteq> 30 \<and> d \<noteq> 60
        \<and> list_ex (\<lambda>s. s_id s = str (b_studentId body)) (students db)
      \<longrightarrow> createReservation L now uuid db body = (Inl InvalidDuration, db))"
proof (intro conjI impI)
  assume "b_duration body = Some 0"
  then show "createReservation L now uuid db body = (Inl MissingFields, db)"
    by (simp add: createReservation_missing truthy_num_def)
next
  assume "b_studentId body = Some [] \<or> b_canteenId body = Some [] \<or> b_date body = Some []
        \<or> b_time body = Some []"
  then show "createReservation L now uuid db body = (Inl MissingFields, db)"
    by (auto simp: createReservation_missing truthy_str_def)
next
  assume "truthy_str (b_studentId body) \<and> truthy_str (b_canteenId body) \<and> truthy_str (b_date body)
        \<and> truthy_str (b_time body) \<and> b_duration body = Some d \<and> d \<noteq> 0 \<and> d \<noteq> 30 \<and> d \<noteq> 60
        \<and> list_ex (\<lambda>s. s_id s = str (b_studentId body)) (students db)"
  then show "createReservation L now uuid db body = (Inl InvalidDuration, db)"
    unfolding createReservation_firstFailure
    by (simp add: checks_def fieldsPresent_def truthy_num_def num_def)
qed

text \<open>Durations 0 and 45 and an empty student id, in the example store.\<close>

theorem duration_zero_is_missing_witness:
  "createReservation utc exampleNow ''r1'' exampleDb (request ''student-1'' ''12:00'' 0)
     = (Inl MissingFields, exampleDb)
   \<and> createReservation utc exampleNow ''r1'' exampleDb (request [] ''12:00'' 30)
     = (Inl MissingFields, exampleDb)
   \<and> createReservation utc exampleNow ''r1'' exampleDb (request ''student-1'' ''12:00'' 45)
     = (Inl InvalidDuration, exampleDb)"
proof -
  have a: "list_ex (\<lambda>s. s_id s = str (b_studentId (request ''student-1'' ''12:00'' 45))) (students exampleDb)"
    by (simp add: example_eval)
  show ?thesis
    using duration_zero_is_missing[of "request ''student-1'' ''12:00'' 0" utc exampleNow "''r1''" exampleDb 0]
      duration_zero_is_missing[of "request [] ''12:00'' 30" utc exampleNow "''r1''" exampleDb 0]
      duration_zero_is_missing[of "request ''student-1'' ''12:00'' 45" utc exampleNow "''r1''" exampleDb 45]
      a
    by (simp add: request_def truthy_str_def)
qed

text \<open>
  C10. Whatever the request and the store, a rejected request leaves the store as it was:
  the one mutation of \<open>createReservation\<close> is on its success path.
\<close>

theorem createReservation_rejection_keeps_store:
  "fst (createReservation L now uuid db body) = Inl e
   \<Longrightarrow> snd (createReservation L now uuid db body) = db"
proof (cases "fieldsPresent body")
  case False
  then show ?thesis by (simp add: createReservation_missing fieldsPresent_def)
next
  case True
  then obtain studentId canteenId date time duration where
    "b_studentId body = Some studentId" "studentId \<noteq> []"
    "b_canteenId body = Some canteenId" "canteenId \<noteq> []"
    "b_date body = Some date" "date \<noteq> []"
    "b_time body = Some time" "time \<noteq> []"
    "b_duration body = Some duration" "duration \<noteq> 0"
    by (rule fieldsPresentE)
  note eq = createReservation_present[OF this]
  assume "fst (createReservation L now uuid db body) = Inl e"
  then show ?thesis unfolding eq
    by (auto split: option.splits if_splits)
qed

text \<open>The request for 10:00 is outside the working hours, and the example store is unchanged.\<close>

theorem createReservation_rejection_keeps_store_witness:
  "fst (createReservation utc exampleNow ''r2'' exampleDb (request ''student-1'' ''10:00'' 30))
     = Inl OutsideWorkingHours
   \<and> snd (createReservation utc exampleNow ''r2'' exampleDb (request ''student-1'' ''10:00'' 30))
     = exampleDb"
proof -
  have a: "fst (createReservation utc exampleNow ''r2'' exampleDb
                  (request ''student-1'' ''10:00'' 30)) = Inl OutsideWorkingHours"
    by (simp add: example_eval)
  from a createReservation_rejection_keeps_store[OF a] show ?thesis by simp
qed

end
